theory Spec2Isabelle
  imports Main "HOL-Library.Multiset" "HOL-Library.Sublist" "HOL-Library.Option_ord"
    "HOL-Library.Log_Nat"
begin

text \<open>
  A model of the REST backend of the health-tracking application: the route handlers
  of \<open>registerRoutes\<close>, the storage class \<open>DatabaseStorage\<close> and the two analysis
  functions of \<open>server/anthropic.ts\<close>, over the tables declared in
  \<open>shared/schema.ts\<close>. Handlers are functions from the state of the world (the
  database and the trace of calls made so far) and a request to the new state and
  a response; everything that throws returns a sum whose left side is the error.
  The libraries the code rests on (the query builder and PostgreSQL, the schema
  validator, the provider's client) are modelled by the operations the code uses.
\<close>

section \<open>Values\<close>

text \<open>
  JavaScript values as they travel through the server: JSON values from request bodies,
  \<open>Date\<close> objects (milliseconds since the epoch) created by the server or returned by
  the database driver. Numbers are restricted to integers. A JavaScript object, and a
  table row, is a finite map from property names to values; a property that is
  \<open>undefined\<close> is absent from the map.
\<close>

datatype val =
    VNull
  | VBool bool
  | VNum int
  | VStr string
  | VDate int
  | VArr "val list"
  | VObj "(string \<times> val) list"

type_synonym obj = "string \<rightharpoonup> val"

text \<open>The result of \<open>parseInt\<close>: an integer or \<open>NaN\<close>.\<close>

datatype number = Num int | NaN

text \<open>A \<open>Date\<close> object built by \<open>new Date(string)\<close>: a point in time or \<open>Invalid Date\<close>.\<close>

datatype jsdate = Date int | InvalidDate

text \<open>JavaScript truthiness, as tested by \<open>!x\<close> in the precondition checks.\<close>

fun truthy :: "val option \<Rightarrow> bool" where
  "truthy None = False"
| "truthy (Some VNull) = False"
| "truthy (Some (VBool b)) = b"
| "truthy (Some (VNum n)) = (n \<noteq> 0)"
| "truthy (Some (VStr s)) = (s \<noteq> [])"
| "truthy (Some (VDate t)) = True"
| "truthy (Some (VArr xs)) = True"
| "truthy (Some (VObj kvs)) = True"

text \<open>A query-string parameter is a string or absent; the empty string is falsy.\<close>

definition truthy_param :: "string option \<Rightarrow> bool" where
  "truthy_param p = (case p of None \<Rightarrow> False | Some s \<Rightarrow> s \<noteq> [])"

section \<open>The declared schema (shared/schema.ts)\<close>

datatype coltype =
    PgSerial
  | PgUUID
  | PgInteger
  | PgNumeric
  | PgVarchar "nat option"
  | PgText
  | PgJsonb
  | PgTextArray
  | PgTimestamp
  | PgDate
  | PgBoolean
  | PgEnum "string list"

datatype dflt = NoDefault | DefaultNow | DefaultVal val | DefaultRandomUuid | NextSerial

record column =
  cname :: string
  ctype :: coltype
  c_notNull :: bool
  c_default :: dflt
  c_unique :: bool
  c_refUsers :: bool

definition col :: "string \<Rightarrow> coltype \<Rightarrow> column" where
  "col n t = \<lparr>cname = n, ctype = t, c_notNull = False, c_default = NoDefault,
              c_unique = False, c_refUsers = False\<rparr>"

definition serialPrimaryKey :: "string \<Rightarrow> column" where
  "serialPrimaryKey n = \<lparr>cname = n, ctype = PgSerial, c_notNull = True, c_default = NextSerial,
              c_unique = True, c_refUsers = False\<rparr>"

text \<open>\<open>uuid(...).references(() => users.id, { onDelete: 'cascade' }).notNull()\<close>\<close>

definition userRef :: "string \<Rightarrow> column" where
  "userRef n = \<lparr>cname = n, ctype = PgUUID, c_notNull = True, c_default = NoDefault,
              c_unique = False, c_refUsers = True\<rparr>"

definition notNull :: "column \<Rightarrow> column" where
  "notNull c = c\<lparr>c_notNull := True\<rparr>"

definition unique :: "column \<Rightarrow> column" where
  "unique c = c\<lparr>c_unique := True\<rparr>"

definition withDefault :: "dflt \<Rightarrow> column \<Rightarrow> column" where
  "withDefault d c = c\<lparr>c_default := d\<rparr>"

definition appointmentStatusEnum :: "string list" where
  "appointmentStatusEnum = [''scheduled'', ''completed'', ''cancelled'', ''rescheduled'']"

definition userTypeEnum :: "string list" where
  "userTypeEnum = [''patient'', ''doctor'', ''admin'']"

datatype tname =
  Users | UserProfiles | FoodEntries | HrvData | Appointments | MedicalDocuments | AiConversations

definition users :: "column list" where
  "users =
    [ \<lparr>cname = ''id'', ctype = PgUUID, c_notNull = True, c_default = DefaultRandomUuid,
        c_unique = True, c_refUsers = False\<rparr>,
      unique (col ''email'' (PgVarchar None)),
      col ''firstName'' (PgVarchar None),
      col ''lastName'' (PgVarchar None),
      col ''profileImageUrl'' (PgVarchar None),
      withDefault (DefaultVal (VStr ''patient'')) (col ''userType'' (PgEnum userTypeEnum)),
      withDefault DefaultNow (col ''createdAt'' PgTimestamp),
      withDefault DefaultNow (col ''updatedAt'' PgTimestamp) ]"

text \<open>
  \<open>userProfiles.userId\<close> is declared with \<open>.references(...).notNull()\<close> only: unlike
  \<open>users.email\<close> it carries no \<open>.unique()\<close>.
\<close>

definition userProfiles :: "column list" where
  "userProfiles =
    [ serialPrimaryKey ''id'',
      userRef ''userId'',
      col ''age'' PgInteger,
      col ''weight'' PgNumeric,
      col ''height'' PgNumeric,
      col ''sex'' (PgVarchar (Some 10)),
      col ''bloodType'' (PgVarchar (Some 5)),
      col ''emergencyContact'' PgJsonb,
      col ''medicalConditions'' PgTextArray,
      col ''allergies'' PgTextArray,
      col ''medications'' PgTextArray,
      col ''familyHistory'' PgJsonb,
      withDefault DefaultNow (col ''createdAt'' PgTimestamp),
      withDefault DefaultNow (col ''updatedAt'' PgTimestamp) ]"

definition hrvData :: "column list" where
  "hrvData =
    [ serialPrimaryKey ''id'',
      userRef ''userId'',
      withDefault DefaultNow (col ''timestamp'' PgTimestamp),
      col ''rmssd'' PgNumeric,
      col ''pnn50'' PgNumeric,
      col ''heartRate'' PgInteger,
      col ''stressLevel'' PgInteger,
      col ''sourceDevice'' (PgVarchar (Some 100)),
      col ''sourceApi'' (PgVarchar (Some 50)),
      col ''rawData'' PgJsonb ]"

definition foodEntries :: "column list" where
  "foodEntries =
    [ serialPrimaryKey ''id'',
      userRef ''userId'',
      withDefault DefaultNow (col ''timestamp'' PgTimestamp),
      col ''mealType'' (PgVarchar (Some 20)),
      col ''description'' PgText,
      col ''imageUrl'' (PgVarchar None),
      col ''voiceTranscript'' PgText,
      col ''aiAnalysis'' PgJsonb,
      col ''calories'' PgInteger,
      col ''nutrients'' PgJsonb,
      col ''moodBefore'' PgInteger,
      col ''moodAfter'' PgInteger,
      col ''energyBefore'' PgInteger,
      col ''energyAfter'' PgInteger,
      col ''digestionRating'' PgInteger ]"

definition medicalDocuments :: "column list" where
  "medicalDocuments =
    [ serialPrimaryKey ''id'',
      userRef ''userId'',
      notNull (col ''documentType'' (PgVarchar (Some 50))),
      notNull (col ''title'' (PgVarchar (Some 200))),
      notNull (col ''fileUrl'' (PgVarchar None)),
      col ''encryptedKey'' (PgVarchar None),
      withDefault DefaultNow (col ''uploadDate'' PgTimestamp),
      col ''documentDate'' PgDate,
      col ''doctorName'' (PgVarchar (Some 100)),
      col ''facilityName'' (PgVarchar (Some 200)),
      col ''tags'' PgTextArray,
      withDefault (DefaultVal (VBool False)) (col ''isShared'' PgBoolean) ]"

definition appointments :: "column list" where
  "appointments =
    [ serialPrimaryKey ''id'',
      userRef ''patientId'',
      userRef ''doctorId'',
      notNull (col ''appointmentDate'' PgTimestamp),
      withDefault (DefaultVal (VNum 30)) (col ''duration'' PgInteger),
      withDefault (DefaultVal (VStr ''scheduled'')) (col ''status'' (PgEnum appointmentStatusEnum)),
      col ''type'' (PgVarchar (Some 50)),
      col ''notes'' PgText,
      col ''videoCallUrl'' (PgVarchar None),
      col ''price'' PgNumeric,
      withDefault (DefaultVal (VBool False)) (col ''isPaid'' PgBoolean),
      withDefault DefaultNow (col ''createdAt'' PgTimestamp),
      withDefault DefaultNow (col ''updatedAt'' PgTimestamp) ]"

definition aiConversations :: "column list" where
  "aiConversations =
    [ serialPrimaryKey ''id'',
      userRef ''userId'',
      withDefault DefaultRandomUuid (col ''sessionId'' PgUUID),
      notNull (col ''messages'' PgJsonb),
      col ''symptoms'' PgTextArray,
      col ''recommendations'' PgJsonb,
      withDefault (DefaultVal (VBool False)) (col ''escalationFlag'' PgBoolean),
      withDefault DefaultNow (col ''createdAt'' PgTimestamp),
      withDefault DefaultNow (col ''updatedAt'' PgTimestamp) ]"

fun columns :: "tname \<Rightarrow> column list" where
  "columns Users = users"
| "columns UserProfiles = userProfiles"
| "columns FoodEntries = foodEntries"
| "columns HrvData = hrvData"
| "columns Appointments = appointments"
| "columns MedicalDocuments = medicalDocuments"
| "columns AiConversations = aiConversations"

section \<open>The relational store\<close>

text \<open>
  The database holds, per table, its rows in insertion order and the state of the
  sequence behind its \<open>serial\<close> column. Each request runs in an environment that fixes
  what the model cannot compute: the database clock (\<open>defaultNow()\<close>), the server
  clock (\<open>new Date()\<close>), the value \<open>gen_random_uuid()\<close> yields and the outcome of
  \<open>new Date(string)\<close>.
\<close>

record database =
  rows :: "tname \<Rightarrow> obj list"
  seqs :: "tname \<Rightarrow> int"

record env =
  dbNow :: int
  jsNow :: int
  randomUuid :: string
  newDate :: "string \<Rightarrow> jsdate"

datatype pg_failure =
    NoUniqueConstraintForOnConflict
  | DataException
  | NotNullViolation
  | UniqueViolation
  | ForeignKeyViolation

datatype exn = ZodError | PgError pg_failure | Error string

definition int4 :: "int \<Rightarrow> bool" where
  "int4 n = (- 2147483648 \<le> n \<and> n \<le> 2147483647)"

fun is_str :: "val \<Rightarrow> bool" where
  "is_str (VStr s) = True"
| "is_str v = False"

text \<open>
  PostgreSQL's input of a \<open>uuid\<close>: an optional pair of braces around sixteen bytes of
  two hexadecimal digits each, in either case, with an optional hyphen after every
  second byte; anything else is a syntax error. The value is kept, compared and
  returned in the lower-case 8-4-4-4-12 spelling.
\<close>

definition hex_lower :: "char \<Rightarrow> char option" where
  "hex_lower c = map_of (zip ''0123456789abcdefABCDEF'' ''0123456789abcdefabcdef'') c"

fun uuid_digits :: "nat \<Rightarrow> nat \<Rightarrow> string \<Rightarrow> (string \<times> string) option" where
  "uuid_digits 0 i s = Some ([], s)"
| "uuid_digits (Suc n) i (a # b # s) =
     (case hex_lower a of
        None \<Rightarrow> None
      | Some x \<Rightarrow>
          (case hex_lower b of
             None \<Rightarrow> None
           | Some y \<Rightarrow>
               map_option (\<lambda>(ds, rest). (x # y # ds, rest))
                 (uuid_digits n (Suc i)
                    (if odd i \<and> i < 15 \<and> take 1 s = ''-'' then drop 1 s else s))))"
| "uuid_digits (Suc n) i s = None"

definition pg_uuid_in :: "string \<Rightarrow> string option" where
  "pg_uuid_in s =
     (let braces = (take 1 s = ''{'')
      in case uuid_digits 16 0 (if braces then drop 1 s else s) of
           None \<Rightarrow> None
         | Some (ds, rest) \<Rightarrow>
             if rest = (if braces then ''}'' else [])
             then Some (take 8 ds @ ''-'' @ take 4 (drop 8 ds) @ ''-'' @ take 4 (drop 12 ds)
                        @ ''-'' @ take 4 (drop 16 ds) @ ''-'' @ drop 20 ds)
             else None)"

text \<open>
  What a column of each declared type stores. The model checks what the schema
  declares (the syntax of a uuid, the closed set of an enum, the length of a
  \<open>varchar(n)\<close>, the range of a 32-bit integer) on a value that already has the
  column's kind; the driver's conversions between kinds are not modelled.
\<close>

definition pg_accepts :: "coltype \<Rightarrow> val \<Rightarrow> bool" where
  "pg_accepts t v =
     (case t of
        PgSerial \<Rightarrow> (case v of VNum n \<Rightarrow> int4 n | _ \<Rightarrow> False)
      | PgInteger \<Rightarrow> (case v of VNum n \<Rightarrow> int4 n | _ \<Rightarrow> False)
      | PgUUID \<Rightarrow> (case v of VStr s \<Rightarrow> pg_uuid_in s \<noteq> None | _ \<Rightarrow> False)
      | PgNumeric \<Rightarrow> (case v of VStr s \<Rightarrow> True | VNum n \<Rightarrow> True | _ \<Rightarrow> False)
      | PgVarchar bound \<Rightarrow>
          (case v of
             VStr s \<Rightarrow> (case bound of None \<Rightarrow> True | Some n \<Rightarrow> length s \<le> n)
           | _ \<Rightarrow> False)
      | PgText \<Rightarrow> is_str v
      | PgJsonb \<Rightarrow> True
      | PgTextArray \<Rightarrow> (case v of VArr vs \<Rightarrow> list_all is_str vs | _ \<Rightarrow> False)
      | PgTimestamp \<Rightarrow> (case v of VDate x \<Rightarrow> True | _ \<Rightarrow> False)
      | PgDate \<Rightarrow> is_str v
      | PgBoolean \<Rightarrow> (case v of VBool b \<Rightarrow> True | _ \<Rightarrow> False)
      | PgEnum xs \<Rightarrow> (case v of VStr s \<Rightarrow> s \<in> set xs | _ \<Rightarrow> False))"

text \<open>The value as the column keeps it: a uuid in its lower-case spelling.\<close>

definition canon :: "coltype \<Rightarrow> val \<Rightarrow> val" where
  "canon t v =
     (case t of
        PgUUID \<Rightarrow>
          (case v of
             VStr s \<Rightarrow> (case pg_uuid_in s of None \<Rightarrow> v | Some u \<Rightarrow> VStr u)
           | _ \<Rightarrow> v)
      | _ \<Rightarrow> v)"

text \<open>The value of a column in a row; a missing property reads as SQL \<open>NULL\<close>.\<close>

definition cell :: "obj \<Rightarrow> string \<Rightarrow> val" where
  "cell r k = (case r k of Some v \<Rightarrow> v | None \<Rightarrow> VNull)"

definition default_value :: "env \<Rightarrow> int \<Rightarrow> dflt \<Rightarrow> val" where
  "default_value e next d =
     (case d of
        NoDefault \<Rightarrow> VNull
      | DefaultNow \<Rightarrow> VDate (dbNow e)
      | DefaultVal v \<Rightarrow> v
      | DefaultRandomUuid \<Rightarrow> VStr (randomUuid e)
      | NextSerial \<Rightarrow> VNum next)"

text \<open>
  \<open>.values(obj)\<close>: every column of the table takes the object's property of its name,
  or its default when the property is \<open>undefined\<close>; properties that name no column
  are ignored.
\<close>

definition new_row :: "env \<Rightarrow> int \<Rightarrow> column list \<Rightarrow> obj \<Rightarrow> obj" where
  "new_row e next cols vals =
     (\<lambda>k. case find (\<lambda>c. cname c = k) cols of
             None \<Rightarrow> None
           | Some c \<Rightarrow>
               Some (case vals k of
                       Some v \<Rightarrow> canon (ctype c) v
                     | None \<Rightarrow> default_value e next (c_default c)))"

definition data_ok :: "column list \<Rightarrow> obj \<Rightarrow> bool" where
  "data_ok cols r =
     list_all (\<lambda>c. cell r (cname c) = VNull \<or> pg_accepts (ctype c) (cell r (cname c))) cols"

definition notnull_ok :: "column list \<Rightarrow> obj \<Rightarrow> bool" where
  "notnull_ok cols r = list_all (\<lambda>c. c_notNull c \<longrightarrow> cell r (cname c) \<noteq> VNull) cols"

definition unique_ok :: "column list \<Rightarrow> obj list \<Rightarrow> obj \<Rightarrow> bool" where
  "unique_ok cols others r =
     list_all (\<lambda>c. c_unique c \<longrightarrow> cell r (cname c) = VNull \<or>
                    list_all (\<lambda>x. cell x (cname c) \<noteq> cell r (cname c)) others) cols"

definition fk_ok :: "column list \<Rightarrow> obj list \<Rightarrow> obj \<Rightarrow> bool" where
  "fk_ok cols userRows r =
     list_all (\<lambda>c. c_refUsers c \<longrightarrow> cell r (cname c) = VNull \<or>
                    list_ex (\<lambda>u. cell u ''id'' = cell r (cname c)) userRows) cols"

definition violation :: "database \<Rightarrow> tname \<Rightarrow> obj list \<Rightarrow> obj \<Rightarrow> pg_failure option" where
  "violation d t others r =
     (if \<not> data_ok (columns t) r then Some DataException
      else if \<not> notnull_ok (columns t) r then Some NotNullViolation
      else if \<not> unique_ok (columns t) others r then Some UniqueViolation
      else if \<not> fk_ok (columns t) (rows d Users) r then Some ForeignKeyViolation
      else None)"

text \<open>
  A row proposed for insertion draws the next value of the table's sequence when the
  \<open>serial\<close> column is left to its default. A value its column does not accept fails
  the statement when the parameters are bound, before the sequence is touched; a
  constraint violated by the row fails it afterwards, and the sequence keeps its step.
\<close>

definition draws_serial :: "column list \<Rightarrow> obj \<Rightarrow> bool" where
  "draws_serial cols vals = list_ex (\<lambda>c. c_default c = NextSerial \<and> vals (cname c) = None) cols"

definition step_seq :: "tname \<Rightarrow> obj \<Rightarrow> database \<Rightarrow> database" where
  "step_seq t vals d =
     (if draws_serial (columns t) vals then d\<lparr>seqs := (seqs d)(t := seqs d t + 1)\<rparr> else d)"

definition append_row :: "tname \<Rightarrow> obj \<Rightarrow> database \<Rightarrow> database" where
  "append_row t r d = d\<lparr>rows := (rows d)(t := rows d t @ [r])\<rparr>"

text \<open>\<open>db.insert(table).values(vals).returning()\<close>\<close>

definition pg_insert :: "env \<Rightarrow> database \<Rightarrow> tname \<Rightarrow> obj \<Rightarrow> database \<times> (exn + obj list)" where
  "pg_insert e d t vals =
     (let r = new_row e (seqs d t + 1) (columns t) vals;
          d1 = step_seq t vals d
      in case violation d t (rows d t) r of
           Some f \<Rightarrow> (if f = DataException then d else d1, Inl (PgError f))
         | None \<Rightarrow> (append_row t r d1, Inr [r]))"

fun update_first :: "('a \<Rightarrow> bool) \<Rightarrow> ('a \<Rightarrow> 'a) \<Rightarrow> 'a list \<Rightarrow> 'a list" where
  "update_first P f [] = []"
| "update_first P f (x # xs) = (if P x then f x # xs else x # update_first P f xs)"

text \<open>\<open>.set(obj)\<close>: the properties of the object that name a column replace the row's.\<close>

definition assign :: "column list \<Rightarrow> obj \<Rightarrow> obj \<Rightarrow> obj" where
  "assign cols setvals r =
     (\<lambda>k. case setvals k of
             Some v \<Rightarrow>
               (case find (\<lambda>c. cname c = k) cols of
                  None \<Rightarrow> r k
                | Some c \<Rightarrow> Some (canon (ctype c) v))
           | None \<Rightarrow> r k)"

text \<open>
  \<open>db.insert(table).values(vals).onConflictDoUpdate({ target, set }).returning()\<close>, that is
  \<open>INSERT ... ON CONFLICT (target) DO UPDATE SET ...\<close>. PostgreSQL infers the arbiter
  index from the conflict target and rejects the statement, before it runs, when no
  unique index or constraint covers the target column. Otherwise the row is inserted,
  or, when a stored row has the same target value, that row is updated in place.
\<close>

definition pg_insert_on_conflict_update ::
    "env \<Rightarrow> database \<Rightarrow> tname \<Rightarrow> obj \<Rightarrow> string \<Rightarrow> obj \<Rightarrow> database \<times> (exn + obj list)" where
  "pg_insert_on_conflict_update e d t vals target setvals =
     (if \<not> list_ex (\<lambda>c. cname c = target \<and> c_unique c) (columns t)
      then (d, Inl (PgError NoUniqueConstraintForOnConflict))
      else
        let r = new_row e (seqs d t + 1) (columns t) vals;
            d1 = step_seq t vals d;
            clash = (\<lambda>x. cell r target \<noteq> VNull \<and> cell x target = cell r target)
        in case find clash (rows d t) of
             None \<Rightarrow>
               (case violation d t (rows d t) r of
                  Some f \<Rightarrow> (if f = DataException then d else d1, Inl (PgError f))
                | None \<Rightarrow> (append_row t r d1, Inr [r]))
           | Some old \<Rightarrow>
               (let r' = assign (columns t) setvals old
                in if \<not> data_ok (columns t) r then (d, Inl (PgError DataException))
                   else if \<not> notnull_ok (columns t) r then (d1, Inl (PgError NotNullViolation))
                   else
                     case violation d t (filter (\<lambda>x. \<not> clash x) (rows d t)) r' of
                       Some f \<Rightarrow> (d1, Inl (PgError f))
                     | None \<Rightarrow>
                         (d1\<lparr>rows := (rows d1)(t := update_first clash (\<lambda>x. r') (rows d1 t))\<rparr>,
                          Inr [r'])))"

text \<open>
  \<open>db.update(table).set(obj).where(cond)\<close>. The assigned values are bound as
  parameters of the columns' types, so a value its column does not accept fails the
  statement whether or not a row matches. No update of the storage layer assigns a
  unique or referencing column.
\<close>

definition bind_ok :: "column list \<Rightarrow> obj \<Rightarrow> bool" where
  "bind_ok cols setvals =
     list_all (\<lambda>c. case setvals (cname c) of
                     None \<Rightarrow> True
                   | Some v \<Rightarrow> v = VNull \<or> pg_accepts (ctype c) v) cols"

definition pg_update :: "database \<Rightarrow> tname \<Rightarrow> obj \<Rightarrow> (obj \<Rightarrow> bool) \<Rightarrow> database \<times> (exn + unit)" where
  "pg_update d t setvals cond =
     (if \<not> bind_ok (columns t) setvals then (d, Inl (PgError DataException))
      else
        if list_ex cond (rows d t)
           \<and> list_ex (\<lambda>c. c_notNull c \<and> setvals (cname c) = Some VNull) (columns t)
        then (d, Inl (PgError NotNullViolation))
        else (d\<lparr>rows := (rows d)(t := map (\<lambda>r. if cond r then assign (columns t) setvals r else r)
                                          (rows d t))\<rparr>,
              Inr ()))"

text \<open>\<open>db.select().from(table).where(cond)\<close>\<close>

definition pg_select :: "database \<Rightarrow> tname \<Rightarrow> (obj \<Rightarrow> bool) \<Rightarrow> obj list" where
  "pg_select d t cond = filter cond (rows d t)"

text \<open>
  \<open>.orderBy(desc(column))\<close> on a timestamp column: later rows first, rows whose
  timestamp is \<open>NULL\<close> before all others (PostgreSQL's \<open>NULLS FIRST\<close> for a descending
  order). Among equal keys the database may answer in any order; the model keeps the
  stored order.
\<close>

definition stamp :: "string \<Rightarrow> obj \<Rightarrow> int option" where
  "stamp k r = (case r k of Some (VDate t) \<Rightarrow> Some t | _ \<Rightarrow> None)"

definition desc_key :: "string \<Rightarrow> obj \<Rightarrow> int option" where
  "desc_key k r = map_option uminus (stamp k r)"

definition order_by_desc :: "string \<Rightarrow> obj list \<Rightarrow> obj list" where
  "order_by_desc k rs = sort_key (desc_key k) rs"

text \<open>
  \<open>.limit(n)\<close>: the query builder adds a \<open>LIMIT\<close> clause when \<open>n\<close> is a number that
  is at least 0, and leaves the clause out otherwise (a negative number, \<open>NaN\<close>), so
  that the query then returns every row. The count is bound as a 64-bit integer: a
  number beyond that range fails the statement.
\<close>

definition int8 :: "int \<Rightarrow> bool" where
  "int8 n = (- 9223372036854775808 \<le> n \<and> n \<le> 9223372036854775807)"

definition limit_clause :: "number \<Rightarrow> obj list \<Rightarrow> exn + obj list" where
  "limit_clause n rs =
     (case n of
        NaN \<Rightarrow> Inr rs
      | Num k \<Rightarrow>
          if k < 0 then Inr rs
          else if int8 k then Inr (take (nat k) rs)
          else Inl (PgError DataException))"

text \<open>
  A string compared with a \<open>uuid\<close> column is bound as a uuid: a string that is none
  fails the statement, and one that is compares by its lower-case spelling.
\<close>

definition bind_uuid :: "string \<Rightarrow> exn + string" where
  "bind_uuid s = (case pg_uuid_in s of None \<Rightarrow> Inl (PgError DataException) | Some u \<Rightarrow> Inr u)"

text \<open>
  A \<open>Date\<close> compared with a timestamp column is sent as its ISO string. The database
  reads that string when its year has four digits and is not 0000, that is from
  0001-01-01T00:00:00.000Z to 9999-12-31T23:59:59.999Z; the signed six-digit years
  that \<open>toISOString\<close> writes outside that range fail the statement.
\<close>

definition timestamp_text_ok :: "int \<Rightarrow> bool" where
  "timestamp_text_ok x = (- 62135596800000 \<le> x \<and> x \<le> 253402300799999)"

text \<open>A number compared with the \<open>serial\<close> id column is bound as a 32-bit integer.\<close>

definition bind_int4 :: "number \<Rightarrow> exn + int" where
  "bind_int4 n =
     (case n of
        NaN \<Rightarrow> Inl (PgError DataException)
      | Num k \<Rightarrow> if int4 k then Inr k else Inl (PgError DataException))"

section \<open>Validation schemas (drizzle-zod)\<close>

text \<open>
  \<open>createInsertSchema(table).omit({...})\<close> builds an object schema with one field per
  remaining column: required when the column is \<open>notNull\<close> without a default, optional
  otherwise, and accepting \<open>null\<close> when the column is nullable. A uuid column is a string
  in the 8-4-4-4-12 hexadecimal layout, a timestamp column a \<open>Date\<close> object, a jsonb
  column any JSON value. \<open>parse\<close> throws when a field is rejected; its result keeps the
  declared fields of the input and strips every other property.
\<close>

definition is_hex :: "char \<Rightarrow> bool" where
  "is_hex c = (c \<in> set ''0123456789abcdefABCDEF'')"

definition is_uuid :: "string \<Rightarrow> bool" where
  "is_uuid s =
     (map (\<lambda>c. if c = CHR ''-'' then CHR ''-'' else if is_hex c then CHR ''x'' else CHR ''?'') s
        = ''xxxxxxxx-xxxx-xxxx-xxxx-xxxxxxxxxxxx'')"

fun is_json :: "val \<Rightarrow> bool" where
  "is_json (VDate t) = False"
| "is_json (VArr vs) = list_all is_json vs"
| "is_json (VObj kvs) = list_all is_json (map snd kvs)"
| "is_json v = True"

definition zod_accepts :: "coltype \<Rightarrow> val \<Rightarrow> bool" where
  "zod_accepts t v =
     (case t of
        PgSerial \<Rightarrow> (case v of VNum n \<Rightarrow> True | _ \<Rightarrow> False)
      | PgInteger \<Rightarrow> (case v of VNum n \<Rightarrow> True | _ \<Rightarrow> False)
      | PgUUID \<Rightarrow> (case v of VStr s \<Rightarrow> is_uuid s | _ \<Rightarrow> False)
      | PgNumeric \<Rightarrow> is_str v
      | PgVarchar bound \<Rightarrow>
          (case v of
             VStr s \<Rightarrow> (case bound of None \<Rightarrow> True | Some n \<Rightarrow> length s \<le> n)
           | _ \<Rightarrow> False)
      | PgText \<Rightarrow> is_str v
      | PgJsonb \<Rightarrow> is_json v
      | PgTextArray \<Rightarrow> (case v of VArr vs \<Rightarrow> list_all is_str vs | _ \<Rightarrow> False)
      | PgTimestamp \<Rightarrow> (case v of VDate x \<Rightarrow> True | _ \<Rightarrow> False)
      | PgDate \<Rightarrow> is_str v
      | PgBoolean \<Rightarrow> (case v of VBool b \<Rightarrow> True | _ \<Rightarrow> False)
      | PgEnum xs \<Rightarrow> (case v of VStr s \<Rightarrow> s \<in> set xs | _ \<Rightarrow> False))"

definition field_ok :: "column \<Rightarrow> val option \<Rightarrow> bool" where
  "field_ok c x =
     (case x of
        None \<Rightarrow> \<not> (c_notNull c \<and> c_default c = NoDefault)
      | Some v \<Rightarrow> if v = VNull \<and> \<not> c_notNull c then True else zod_accepts (ctype c) v)"

record insert_schema =
  shape :: "column list"

definition createInsertSchema :: "column list \<Rightarrow> string list \<Rightarrow> insert_schema" where
  "createInsertSchema cols omitted = \<lparr>shape = filter (\<lambda>c. cname c \<notin> set omitted) cols\<rparr>"

definition zod_parse :: "insert_schema \<Rightarrow> obj \<Rightarrow> exn + obj" where
  "zod_parse sch input =
     (if list_all (\<lambda>c. field_ok c (input (cname c))) (shape sch)
      then Inr (\<lambda>k. if list_ex (\<lambda>c. cname c = k) (shape sch) then input k else None)
      else Inl ZodError)"

definition insertUserSchema :: insert_schema where
  "insertUserSchema = createInsertSchema users [''id'', ''createdAt'', ''updatedAt'']"

definition insertUserProfileSchema :: insert_schema where
  "insertUserProfileSchema = createInsertSchema userProfiles [''id'', ''createdAt'', ''updatedAt'']"

definition insertFoodEntrySchema :: insert_schema where
  "insertFoodEntrySchema = createInsertSchema foodEntries [''id'', ''timestamp'']"

definition insertAppointmentSchema :: insert_schema where
  "insertAppointmentSchema = createInsertSchema appointments [''id'', ''createdAt'', ''updatedAt'']"

definition insertMedicalDocumentSchema :: insert_schema where
  "insertMedicalDocumentSchema = createInsertSchema medicalDocuments [''id'', ''uploadDate'']"

section \<open>The storage layer (class DatabaseStorage)\<close>

text \<open>\<open>const [x] = await ...; return x\<close>: the first row, or \<open>undefined\<close>.\<close>

definition first_row :: "obj list \<Rightarrow> obj option" where
  "first_row rs = (case rs of [] \<Rightarrow> None | r # _ \<Rightarrow> Some r)"

definition returning_first :: "database \<times> (exn + obj list) \<Rightarrow> database \<times> (exn + obj option)" where
  "returning_first x = (fst x, map_sum id first_row (snd x))"

text \<open>The conditions \<open>eq\<close>, \<open>gte\<close> and \<open>lte\<close>; a comparison with \<open>NULL\<close> selects nothing.\<close>

definition eq :: "string \<Rightarrow> val \<Rightarrow> obj \<Rightarrow> bool" where
  "eq k v r = (v \<noteq> VNull \<and> cell r k = v)"

definition gte :: "string \<Rightarrow> int \<Rightarrow> obj \<Rightarrow> bool" where
  "gte k t r = (case stamp k r of None \<Rightarrow> False | Some x \<Rightarrow> t \<le> x)"

definition lte :: "string \<Rightarrow> int \<Rightarrow> obj \<Rightarrow> bool" where
  "lte k t r = (case stamp k r of None \<Rightarrow> False | Some x \<Rightarrow> x \<le> t)"

definition getUser :: "database \<Rightarrow> string \<Rightarrow> exn + obj option" where
  "getUser d ident =
     (case bind_uuid ident of
        Inl x \<Rightarrow> Inl x
      | Inr u \<Rightarrow> Inr (first_row (pg_select d Users (eq ''id'' (VStr u)))))"

definition getUserByEmail :: "database \<Rightarrow> string \<Rightarrow> exn + obj option" where
  "getUserByEmail d email = Inr (first_row (pg_select d Users (eq ''email'' (VStr email))))"

definition upsertUser :: "env \<Rightarrow> database \<Rightarrow> obj \<Rightarrow> database \<times> (exn + obj option)" where
  "upsertUser e d userData =
     returning_first
       (pg_insert_on_conflict_update e d Users userData ''email''
          (userData(''updatedAt'' \<mapsto> VDate (jsNow e))))"

definition getUserProfile :: "database \<Rightarrow> string \<Rightarrow> exn + obj option" where
  "getUserProfile d uid =
     (case bind_uuid uid of
        Inl x \<Rightarrow> Inl x
      | Inr u \<Rightarrow> Inr (first_row (pg_select d UserProfiles (eq ''userId'' (VStr u)))))"

definition upsertUserProfile :: "env \<Rightarrow> database \<Rightarrow> obj \<Rightarrow> database \<times> (exn + obj option)" where
  "upsertUserProfile e d profileData =
     returning_first
       (pg_insert_on_conflict_update e d UserProfiles profileData ''userId''
          (profileData(''updatedAt'' \<mapsto> VDate (jsNow e))))"

definition createFoodEntry :: "env \<Rightarrow> database \<Rightarrow> obj \<Rightarrow> database \<times> (exn + obj option)" where
  "createFoodEntry e d entryData = returning_first (pg_insert e d FoodEntries entryData)"

text \<open>\<open>limit = 50\<close>: the default applies when the argument is \<open>undefined\<close>.\<close>

definition getFoodEntries :: "database \<Rightarrow> string \<Rightarrow> number option \<Rightarrow> exn + obj list" where
  "getFoodEntries d uid limit =
     (case bind_uuid uid of
        Inl x \<Rightarrow> Inl x
      | Inr u \<Rightarrow>
          limit_clause (case limit of None \<Rightarrow> Num 50 | Some n \<Rightarrow> n)
            (order_by_desc ''timestamp'' (pg_select d FoodEntries (eq ''userId'' (VStr u)))))"

text \<open>
  A \<open>Date\<close> parameter is sent as its ISO string; \<open>toISOString\<close> throws a \<open>RangeError\<close>
  on an invalid date, while the query is built and before the database sees it.
\<close>

definition getFoodEntriesByDateRange ::
    "database \<Rightarrow> string \<Rightarrow> jsdate \<Rightarrow> jsdate \<Rightarrow> exn + obj list" where
  "getFoodEntriesByDateRange d uid startDate endDate =
     (case startDate of
        InvalidDate \<Rightarrow> Inl (Error ''Invalid time value'')
      | Date s \<Rightarrow>
          (case endDate of
             InvalidDate \<Rightarrow> Inl (Error ''Invalid time value'')
           | Date t \<Rightarrow>
               (case bind_uuid uid of
                  Inl x \<Rightarrow> Inl x
                | Inr u \<Rightarrow>
                    if \<not> (timestamp_text_ok s \<and> timestamp_text_ok t)
                    then Inl (PgError DataException)
                    else
                      Inr (order_by_desc ''timestamp''
                             (pg_select d FoodEntries
                                (\<lambda>r. eq ''userId'' (VStr u) r
                                      \<and> gte ''timestamp'' s r \<and> lte ''timestamp'' t r))))))"

definition createHRVData :: "env \<Rightarrow> database \<Rightarrow> obj \<Rightarrow> database \<times> (exn + obj option)" where
  "createHRVData e d dat = returning_first (pg_insert e d HrvData dat)"

definition getHRVData :: "database \<Rightarrow> string \<Rightarrow> number option \<Rightarrow> exn + obj list" where
  "getHRVData d uid limit =
     (case bind_uuid uid of
        Inl x \<Rightarrow> Inl x
      | Inr u \<Rightarrow>
          limit_clause (case limit of None \<Rightarrow> Num 100 | Some n \<Rightarrow> n)
            (order_by_desc ''timestamp'' (pg_select d HrvData (eq ''userId'' (VStr u)))))"

definition createAppointment :: "env \<Rightarrow> database \<Rightarrow> obj \<Rightarrow> database \<times> (exn + obj option)" where
  "createAppointment e d appointmentData =
     returning_first (pg_insert e d Appointments appointmentData)"

definition getAppointments :: "database \<Rightarrow> string \<Rightarrow> exn + obj list" where
  "getAppointments d uid =
     (case bind_uuid uid of
        Inl x \<Rightarrow> Inl x
      | Inr u \<Rightarrow>
          Inr (order_by_desc ''appointmentDate''
                 (pg_select d Appointments (eq ''patientId'' (VStr u)))))"

text \<open>
  \<open>.set({ status: status as any, updatedAt: new Date() })\<close>: a property that is
  \<open>undefined\<close> is left out of the assignment.
\<close>

definition updateAppointmentStatus ::
    "env \<Rightarrow> database \<Rightarrow> number \<Rightarrow> val option \<Rightarrow> database \<times> (exn + unit)" where
  "updateAppointmentStatus e d ident status =
     (case bind_int4 ident of
        Inl x \<Rightarrow> (d, Inl x)
      | Inr n \<Rightarrow>
          pg_update d Appointments
            ((case status of None \<Rightarrow> Map.empty | Some v \<Rightarrow> [''status'' \<mapsto> v])
               (''updatedAt'' \<mapsto> VDate (jsNow e)))
            (eq ''id'' (VNum n)))"

definition createMedicalDocument :: "env \<Rightarrow> database \<Rightarrow> obj \<Rightarrow> database \<times> (exn + obj option)" where
  "createMedicalDocument e d documentData =
     returning_first (pg_insert e d MedicalDocuments documentData)"

definition getMedicalDocuments :: "database \<Rightarrow> string \<Rightarrow> exn + obj list" where
  "getMedicalDocuments d uid =
     (case bind_uuid uid of
        Inl x \<Rightarrow> Inl x
      | Inr u \<Rightarrow>
          Inr (order_by_desc ''uploadDate''
                 (pg_select d MedicalDocuments (eq ''userId'' (VStr u)))))"

definition createAIConversation :: "env \<Rightarrow> database \<Rightarrow> obj \<Rightarrow> database \<times> (exn + obj option)" where
  "createAIConversation e d conversationData =
     returning_first (pg_insert e d AiConversations conversationData)"

definition getAIConversations :: "database \<Rightarrow> string \<Rightarrow> exn + obj list" where
  "getAIConversations d uid =
     (case bind_uuid uid of
        Inl x \<Rightarrow> Inl x
      | Inr u \<Rightarrow>
          Inr (order_by_desc ''createdAt''
                 (pg_select d AiConversations (eq ''userId'' (VStr u)))))"

section \<open>The analysis collaborator (server/anthropic.ts)\<close>

text \<open>
  The provider is outside the program: \<open>messages.create\<close> either throws an error with a
  message or answers a list of content blocks, and \<open>JSON.parse\<close> either throws a
  \<open>SyntaxError\<close> with a message or yields a value. Both are parameters of the model.
\<close>

datatype prompt = AnalyzeImage val | AnalyzeText val

record message_request =
  model :: string
  max_tokens :: nat
  content :: prompt

datatype block = TextBlock string | OtherBlock

record provider =
  messages_create :: "message_request \<Rightarrow> string + block list"
  json_parse :: "string \<Rightarrow> string + val"

definition DEFAULT_MODEL_STR :: string where
  "DEFAULT_MODEL_STR = ''claude-sonnet-4-20250514''"

text \<open>What the server does that is visible from outside, in order.\<close>

datatype event =
    StorageCall string
  | ProviderCall message_request
  | ConsoleError string exn

record world =
  db :: database
  trace :: "event list"

definition emit :: "event \<Rightarrow> world \<Rightarrow> world" where
  "emit ev w = w\<lparr>trace := trace w @ [ev]\<rparr>"

text \<open>
  \<open>JSON.parse((response.content[0] as any).text)\<close>: reading \<open>text\<close> of a missing first
  block throws a \<open>TypeError\<close>; a block without \<open>text\<close> hands \<open>undefined\<close> to the parser,
  which reads it as the string \<open>undefined\<close>.
\<close>

definition first_text :: "block list \<Rightarrow> string + string" where
  "first_text blocks =
     (case blocks of
        [] \<Rightarrow> Inl ''Cannot read properties of undefined (reading 'text')''
      | TextBlock s # _ \<Rightarrow> Inr s
      | OtherBlock # _ \<Rightarrow> Inr ''undefined'')"

definition ask :: "provider \<Rightarrow> message_request \<Rightarrow> string + val" where
  "ask p req =
     (case messages_create p req of
        Inl m \<Rightarrow> Inl m
      | Inr blocks \<Rightarrow>
          (case first_text blocks of
             Inl m \<Rightarrow> Inl m
           | Inr s \<Rightarrow> json_parse p s))"

definition analyzeFoodImage :: "provider \<Rightarrow> world \<Rightarrow> val \<Rightarrow> world \<times> (exn + val)" where
  "analyzeFoodImage p w base64Image =
     (let req = \<lparr>model = DEFAULT_MODEL_STR, max_tokens = 1500, content = AnalyzeImage base64Image\<rparr>;
          w1 = emit (ProviderCall req) w
      in case ask p req of
           Inr result \<Rightarrow> (w1, Inr result)
         | Inl m \<Rightarrow>
             (emit (ConsoleError ''Food analysis error:'' (Error m)) w1,
              Inl (Error (''Failed to analyze food image: '' @ m))))"

definition analyzeFoodText :: "provider \<Rightarrow> world \<Rightarrow> val \<Rightarrow> world \<times> (exn + val)" where
  "analyzeFoodText p w description =
     (let req = \<lparr>model = DEFAULT_MODEL_STR, max_tokens = 1500, content = AnalyzeText description\<rparr>;
          w1 = emit (ProviderCall req) w
      in case ask p req of
           Inr result \<Rightarrow> (w1, Inr result)
         | Inl m \<Rightarrow>
             (emit (ConsoleError ''Food text analysis error:'' (Error m)) w1,
              Inl (Error (''Failed to analyze food description: '' @ m))))"

section \<open>parseInt\<close>

text \<open>
  \<open>parseInt(string)\<close> without a radix: leading white space is skipped, a sign is read,
  a \<open>0x\<close> prefix selects base 16, and the longest prefix of digits is the result;
  \<open>NaN\<close> when there is no digit. The result is a double: an integer of more than 53
  bits is rounded to the nearest one a double represents, ties to even.
\<close>

definition round_double :: "nat \<Rightarrow> nat" where
  "round_double n =
     (if n < 9007199254740992 then n
      else
        let e = floorlog 2 n - 53;
            q = n div 2 ^ e;
            r = n mod 2 ^ e
        in (if 2 ^ e < 2 * r \<or> (2 * r = 2 ^ e \<and> odd q) then q + 1 else q) * 2 ^ e)"

definition is_space :: "char \<Rightarrow> bool" where
  "is_space c = (c \<in> set [CHR '' '', CHR 0x09, CHR 0x0A, CHR 0x0B, CHR 0x0C, CHR 0x0D])"

definition digit_val :: "char \<Rightarrow> nat option" where
  "digit_val c =
     map_of
       [(CHR ''0'', 0), (CHR ''1'', 1), (CHR ''2'', 2), (CHR ''3'', 3), (CHR ''4'', 4),
        (CHR ''5'', 5), (CHR ''6'', 6), (CHR ''7'', 7), (CHR ''8'', 8), (CHR ''9'', 9),
        (CHR ''a'', 10), (CHR ''b'', 11), (CHR ''c'', 12), (CHR ''d'', 13), (CHR ''e'', 14),
        (CHR ''f'', 15), (CHR ''A'', 10), (CHR ''B'', 11), (CHR ''C'', 12), (CHR ''D'', 13),
        (CHR ''E'', 14), (CHR ''F'', 15)] c"

definition is_digit :: "nat \<Rightarrow> char \<Rightarrow> bool" where
  "is_digit radix c = (case digit_val c of None \<Rightarrow> False | Some v \<Rightarrow> v < radix)"

definition digits_value :: "nat \<Rightarrow> string \<Rightarrow> nat" where
  "digits_value radix ds =
     foldl (\<lambda>acc c. acc * radix + (case digit_val c of None \<Rightarrow> 0 | Some v \<Rightarrow> v)) 0 ds"

definition parseInt :: "string \<Rightarrow> number" where
  "parseInt s =
     (let s1 = dropWhile is_space s;
          negative = (take 1 s1 = ''-'');
          s2 = (if take 1 s1 = ''-'' \<or> take 1 s1 = ''+'' then drop 1 s1 else s1);
          hex = (take 2 s2 = ''0x'' \<or> take 2 s2 = ''0X'');
          radix = (if hex then 16 else 10);
          s3 = (if hex then drop 2 s2 else s2);
          ds = takeWhile (is_digit radix) s3
      in if ds = [] then NaN
         else Num (if negative then - int (round_double (digits_value radix ds))
                   else int (round_double (digits_value radix ds))))"

section \<open>The route layer (registerRoutes)\<close>

text \<open>
  A request as the handlers read it: the body is the object the JSON body parser
  produced (empty when the request carries none), query and path parameters are
  strings, and \<open>userId\<close> is the property the authentication middleware sets.
\<close>

record request =
  body :: obj
  query :: "string \<Rightarrow> string option"
  params :: "string \<Rightarrow> string option"
  userId :: string

datatype payload = Absent | Message string | Row obj | Rows "obj list" | Json val

record response =
  status :: nat
  payload :: payload

text \<open>The mock authentication middleware stamps one fixed user id on every request.\<close>

definition mockUserId :: string where
  "mockUserId = ''550e8400-e29b-41d4-a716-446655440000''"

definition requireAuth :: "request \<Rightarrow> request" where
  "requireAuth req = req\<lparr>userId := mockUserId\<rparr>"

text \<open>
  \<open>res.json(x)\<close> answers status 200; \<open>res.json(undefined)\<close> sends no body.
  \<open>res.status(n).json({ message })\<close> answers the flat error object.
\<close>

definition json_row :: "obj option \<Rightarrow> payload" where
  "json_row x = (case x of None \<Rightarrow> Absent | Some r \<Rightarrow> Row r)"

definition json_message :: "unit \<Rightarrow> payload" where
  "json_message u = Message ''Appointment status updated''"

definition reply :: "nat \<Rightarrow> string \<Rightarrow> response" where
  "reply code msg = \<lparr>status = code, payload = Message msg\<rparr>"

text \<open>
  The shape every handler shares: \<open>try { ... res.json(result) } catch (error) {
  console.error(label, error); res.status(500).json({ message }) }\<close>.
\<close>

definition respond ::
    "string \<Rightarrow> string \<Rightarrow> ('a \<Rightarrow> payload) \<Rightarrow> world \<times> (exn + 'a) \<Rightarrow> world \<times> response" where
  "respond label msg render x =
     (case snd x of
        Inr result \<Rightarrow> (fst x, \<lparr>status = 200, payload = render result\<rparr>)
      | Inl err \<Rightarrow> (emit (ConsoleError label err) (fst x), reply 500 msg))"

text \<open>A call of a storage method: a read leaves the database as it is, a write returns the new one.\<close>

definition storage_read :: "string \<Rightarrow> (database \<Rightarrow> exn + 'a) \<Rightarrow> world \<Rightarrow> world \<times> (exn + 'a)" where
  "storage_read name f w = (emit (StorageCall name) w, f (db w))"

definition storage_write ::
    "string \<Rightarrow> (database \<Rightarrow> database \<times> (exn + 'a)) \<Rightarrow> world \<Rightarrow> world \<times> (exn + 'a)" where
  "storage_write name f w =
     (emit (StorageCall name) (w\<lparr>db := fst (f (db w))\<rparr>), snd (f (db w)))"

text \<open>\<open>schema.parse({ ...req.body, owner: req.userId })\<close>, then the storage call.\<close>

definition validated ::
    "insert_schema \<Rightarrow> obj \<Rightarrow> (obj \<Rightarrow> world \<Rightarrow> world \<times> (exn + 'a)) \<Rightarrow> world \<Rightarrow> world \<times> (exn + 'a)" where
  "validated sch input k w =
     (case zod_parse sch input of
        Inl err \<Rightarrow> (w, Inl err)
      | Inr parsed \<Rightarrow> k parsed w)"

definition get_profile :: "world \<Rightarrow> request \<Rightarrow> world \<times> response" where
  "get_profile w req =
     respond ''Error fetching profile:'' ''Failed to fetch profile'' json_row
       (storage_read ''getUserProfile'' (\<lambda>d. getUserProfile d (userId req)) w)"

definition post_profile :: "env \<Rightarrow> world \<Rightarrow> request \<Rightarrow> world \<times> response" where
  "post_profile e w req =
     respond ''Error updating profile:'' ''Failed to update profile'' json_row
       (validated insertUserProfileSchema ((body req)(''userId'' \<mapsto> VStr (userId req)))
          (\<lambda>profileData. storage_write ''upsertUserProfile''
                            (\<lambda>d. upsertUserProfile e d profileData)) w)"

text \<open>\<open>req.query.limit ? parseInt(req.query.limit) : undefined\<close>\<close>

definition limit_param :: "request \<Rightarrow> number option" where
  "limit_param req =
     (case query req ''limit'' of
        None \<Rightarrow> None
      | Some s \<Rightarrow> if s = [] then None else Some (parseInt s))"

definition get_food_entries :: "world \<Rightarrow> request \<Rightarrow> world \<times> response" where
  "get_food_entries w req =
     respond ''Error fetching food entries:'' ''Failed to fetch food entries'' Rows
       (storage_read ''getFoodEntries''
          (\<lambda>d. getFoodEntries d (userId req) (limit_param req)) w)"

definition post_food_entries :: "env \<Rightarrow> world \<Rightarrow> request \<Rightarrow> world \<times> response" where
  "post_food_entries e w req =
     respond ''Error creating food entry:'' ''Failed to create food entry'' json_row
       (validated insertFoodEntrySchema ((body req)(''userId'' \<mapsto> VStr (userId req)))
          (\<lambda>entryData. storage_write ''createFoodEntry'' (\<lambda>d. createFoodEntry e d entryData)) w)"

definition get_food_entries_range :: "env \<Rightarrow> world \<Rightarrow> request \<Rightarrow> world \<times> response" where
  "get_food_entries_range e w req =
     (if \<not> truthy_param (query req ''startDate'') \<or> \<not> truthy_param (query req ''endDate'')
      then (w, reply 400 ''Start date and end date are required'')
      else
        case query req ''startDate'' of
          None \<Rightarrow> (w, reply 400 ''Start date and end date are required'')
        | Some startDate \<Rightarrow>
            (case query req ''endDate'' of
               None \<Rightarrow> (w, reply 400 ''Start date and end date are required'')
             | Some endDate \<Rightarrow>
                 respond ''Error fetching food entries by date range:''
                   ''Failed to fetch food entries'' Rows
                   (storage_read ''getFoodEntriesByDateRange''
                      (\<lambda>d. getFoodEntriesByDateRange d (userId req)
                              (newDate e startDate) (newDate e endDate)) w)))"

definition post_analyze_food_image :: "provider \<Rightarrow> world \<Rightarrow> request \<Rightarrow> world \<times> response" where
  "post_analyze_food_image p w req =
     (case body req ''base64Image'' of
        None \<Rightarrow> (w, reply 400 ''Base64 image is required'')
      | Some base64Image \<Rightarrow>
          if \<not> truthy (Some base64Image) then (w, reply 400 ''Base64 image is required'')
          else respond ''Error analyzing food image:'' ''Failed to analyze food image'' Json
                 (analyzeFoodImage p w base64Image))"

definition post_analyze_food_text :: "provider \<Rightarrow> world \<Rightarrow> request \<Rightarrow> world \<times> response" where
  "post_analyze_food_text p w req =
     (case body req ''description'' of
        None \<Rightarrow> (w, reply 400 ''Food description is required'')
      | Some description \<Rightarrow>
          if \<not> truthy (Some description) then (w, reply 400 ''Food description is required'')
          else respond ''Error analyzing food text:'' ''Failed to analyze food description'' Json
                 (analyzeFoodText p w description))"

definition get_hrv_data :: "world \<Rightarrow> request \<Rightarrow> world \<times> response" where
  "get_hrv_data w req =
     respond ''Error fetching HRV data:'' ''Failed to fetch HRV data'' Rows
       (storage_read ''getHRVData'' (\<lambda>d. getHRVData d (userId req) (limit_param req)) w)"

definition post_hrv_data :: "env \<Rightarrow> world \<Rightarrow> request \<Rightarrow> world \<times> response" where
  "post_hrv_data e w req =
     respond ''Error creating HRV data:'' ''Failed to create HRV data'' json_row
       (storage_write ''createHRVData''
          (\<lambda>d. createHRVData e d ((body req)(''userId'' \<mapsto> VStr (userId req)))) w)"

definition get_appointments :: "world \<Rightarrow> request \<Rightarrow> world \<times> response" where
  "get_appointments w req =
     respond ''Error fetching appointments:'' ''Failed to fetch appointments'' Rows
       (storage_read ''getAppointments'' (\<lambda>d. getAppointments d (userId req)) w)"

definition post_appointments :: "env \<Rightarrow> world \<Rightarrow> request \<Rightarrow> world \<times> response" where
  "post_appointments e w req =
     respond ''Error creating appointment:'' ''Failed to create appointment'' json_row
       (validated insertAppointmentSchema ((body req)(''patientId'' \<mapsto> VStr (userId req)))
          (\<lambda>appointmentData. storage_write ''createAppointment''
                                (\<lambda>d. createAppointment e d appointmentData)) w)"

text \<open>\<open>parseInt(id)\<close> of the path parameter; \<open>status\<close> is read from the body unchecked.\<close>

definition id_param :: "request \<Rightarrow> number" where
  "id_param req = (case params req ''id'' of None \<Rightarrow> NaN | Some s \<Rightarrow> parseInt s)"

definition patch_appointment_status :: "env \<Rightarrow> world \<Rightarrow> request \<Rightarrow> world \<times> response" where
  "patch_appointment_status e w req =
     respond ''Error updating appointment status:'' ''Failed to update appointment status''
       json_message
       (storage_write ''updateAppointmentStatus''
          (\<lambda>d. updateAppointmentStatus e d (id_param req) (body req ''status'')) w)"

definition get_medical_documents :: "world \<Rightarrow> request \<Rightarrow> world \<times> response" where
  "get_medical_documents w req =
     respond ''Error fetching medical documents:'' ''Failed to fetch medical documents'' Rows
       (storage_read ''getMedicalDocuments'' (\<lambda>d. getMedicalDocuments d (userId req)) w)"

definition post_medical_documents :: "env \<Rightarrow> world \<Rightarrow> request \<Rightarrow> world \<times> response" where
  "post_medical_documents e w req =
     respond ''Error creating medical document:'' ''Failed to create medical document'' json_row
       (validated insertMedicalDocumentSchema ((body req)(''userId'' \<mapsto> VStr (userId req)))
          (\<lambda>documentData. storage_write ''createMedicalDocument''
                             (\<lambda>d. createMedicalDocument e d documentData)) w)"

definition get_ai_conversations :: "world \<Rightarrow> request \<Rightarrow> world \<times> response" where
  "get_ai_conversations w req =
     respond ''Error fetching AI conversations:'' ''Failed to fetch AI conversations'' Rows
       (storage_read ''getAIConversations'' (\<lambda>d. getAIConversations d (userId req)) w)"

definition post_ai_conversations :: "env \<Rightarrow> world \<Rightarrow> request \<Rightarrow> world \<times> response" where
  "post_ai_conversations e w req =
     respond ''Error creating AI conversation:'' ''Failed to create AI conversation'' json_row
       (storage_write ''createAIConversation''
          (\<lambda>d. createAIConversation e d ((body req)(''userId'' \<mapsto> VStr (userId req)))) w)"

text \<open>\<open>app.METHOD(path, requireAuth, handler)\<close>: the middleware runs before each handler.\<close>

datatype route =
    GetProfile | PostProfile
  | GetFoodEntries | PostFoodEntries | GetFoodEntriesRange
  | PostAnalyzeFoodImage | PostAnalyzeFoodText
  | GetHrvData | PostHrvData
  | GetAppointments | PostAppointments | PatchAppointmentStatus
  | GetMedicalDocuments | PostMedicalDocuments
  | GetAiConversations | PostAiConversations

definition handler :: "route \<Rightarrow> env \<Rightarrow> provider \<Rightarrow> world \<Rightarrow> request \<Rightarrow> world \<times> response" where
  "handler rt e p w req =
     (case rt of
        GetProfile \<Rightarrow> get_profile w req
      | PostProfile \<Rightarrow> post_profile e w req
      | GetFoodEntries \<Rightarrow> get_food_entries w req
      | PostFoodEntries \<Rightarrow> post_food_entries e w req
      | GetFoodEntriesRange \<Rightarrow> get_food_entries_range e w req
      | PostAnalyzeFoodImage \<Rightarrow> post_analyze_food_image p w req
      | PostAnalyzeFoodText \<Rightarrow> post_analyze_food_text p w req
      | GetHrvData \<Rightarrow> get_hrv_data w req
      | PostHrvData \<Rightarrow> post_hrv_data e w req
      | GetAppointments \<Rightarrow> get_appointments w req
      | PostAppointments \<Rightarrow> post_appointments e w req
      | PatchAppointmentStatus \<Rightarrow> patch_appointment_status e w req
      | GetMedicalDocuments \<Rightarrow> get_medical_documents w req
      | PostMedicalDocuments \<Rightarrow> post_medical_documents e w req
      | GetAiConversations \<Rightarrow> get_ai_conversations w req
      | PostAiConversations \<Rightarrow> post_ai_conversations e w req)"

definition serve :: "route \<Rightarrow> env \<Rightarrow> provider \<Rightarrow> world \<Rightarrow> request \<Rightarrow> world \<times> response" where
  "serve rt e p w req = handler rt e p w (requireAuth req)"

section \<open>The routes that create rows\<close>

definition create_routes :: "route list" where
  "create_routes =
     [PostProfile, PostFoodEntries, PostHrvData, PostAppointments, PostMedicalDocuments,
      PostAiConversations]"

text \<open>The property the handler of a create route overrides, and the table it writes.\<close>

definition owner_field :: "route \<Rightarrow> string" where
  "owner_field rt = (if rt = PostAppointments then ''patientId'' else ''userId'')"

definition table_of :: "route \<Rightarrow> tname" where
  "table_of rt =
     (case rt of
        PostProfile \<Rightarrow> UserProfiles
      | PostFoodEntries \<Rightarrow> FoodEntries
      | PostHrvData \<Rightarrow> HrvData
      | PostAppointments \<Rightarrow> Appointments
      | PostMedicalDocuments \<Rightarrow> MedicalDocuments
      | PostAiConversations \<Rightarrow> AiConversations
      | _ \<Rightarrow> Users)"

section \<open>Newest first\<close>

text \<open>
  A list of rows is newest first on a timestamp column when, of any two rows, the
  earlier in the list has the later or the same timestamp; rows without a timestamp
  stand in front.
\<close>

definition newer_or_same :: "string \<Rightarrow> obj \<Rightarrow> obj \<Rightarrow> bool" where
  "newer_or_same k a b =
     (case stamp k a of
        None \<Rightarrow> True
      | Some x \<Rightarrow> (case stamp k b of None \<Rightarrow> False | Some y \<Rightarrow> y \<le> x))"

definition newest_first :: "string \<Rightarrow> obj list \<Rightarrow> bool" where
  "newest_first k rs = sorted_wrt (newer_or_same k) rs"

section \<open>Sample data\<close>

text \<open>
  A database whose only row is the user the mock authentication names, a request
  with an empty body, a provider that is rate limited, and an environment whose
  \<open>new Date\<close> reads the two dates of the specification's range example.
\<close>

definition emptyDb :: database where
  "emptyDb = \<lparr>rows = (\<lambda>t. []), seqs = (\<lambda>t. 0)\<rparr>"

definition mockUser :: obj where
  "mockUser = [''id'' \<mapsto> VStr mockUserId, ''email'' \<mapsto> VStr ''patient@example.org'',
               ''userType'' \<mapsto> VStr ''patient'']"

definition seededDb :: database where
  "seededDb = \<lparr>rows = (\<lambda>t. [])(Users := [mockUser]), seqs = (\<lambda>t. 0)\<rparr>"

definition world0 :: world where
  "world0 = \<lparr>db = seededDb, trace = []\<rparr>"

definition env0 :: env where
  "env0 = \<lparr>dbNow = 1718000000000, jsNow = 1718000000000,
            randomUuid = ''7c9e6679-7425-40de-944b-e07fc1f90ae7'',
            newDate = (\<lambda>s. if s = ''2024-01-01'' then Date 1704067200000
                             else if s = ''2024-01-31'' then Date 1706659200000
                             else InvalidDate)\<rparr>"

definition rateLimited :: provider where
  "rateLimited = \<lparr>messages_create = (\<lambda>r. Inl ''rate_limit_error''),
                   json_parse = (\<lambda>s. Inl ''Unexpected end of JSON input'')\<rparr>"

definition request0 :: request where
  "request0 = \<lparr>body = Map.empty, query = (\<lambda>k. None), params = (\<lambda>k. None), userId = []\<rparr>"

definition message_of :: "payload \<Rightarrow> string" where
  "message_of x = (case x of Message m \<Rightarrow> m | _ \<Rightarrow> [])"

text \<open>
  Food entries of the authenticated user on 1, 15 and 31 January and on 1 February
  2024 (all at midnight UTC), and one entry of another user on 10 January, stored in
  no particular order.
\<close>

definition otherUserId :: string where
  "otherUserId = ''123e4567-e89b-42d3-a456-426614174000''"

definition entryJan01 :: obj where
  "entryJan01 = [''id'' \<mapsto> VNum 1, ''userId'' \<mapsto> VStr mockUserId,
                 ''timestamp'' \<mapsto> VDate 1704067200000, ''description'' \<mapsto> VStr ''oatmeal'']"

definition entryFeb01 :: obj where
  "entryFeb01 = [''id'' \<mapsto> VNum 2, ''userId'' \<mapsto> VStr mockUserId,
                 ''timestamp'' \<mapsto> VDate 1706745600000, ''description'' \<mapsto> VStr ''lentil soup'']"

definition entryJan31 :: obj where
  "entryJan31 = [''id'' \<mapsto> VNum 3, ''userId'' \<mapsto> VStr mockUserId,
                 ''timestamp'' \<mapsto> VDate 1706659200000, ''description'' \<mapsto> VStr ''salad'']"

definition entryOther :: obj where
  "entryOther = [''id'' \<mapsto> VNum 4, ''userId'' \<mapsto> VStr otherUserId,
                 ''timestamp'' \<mapsto> VDate 1704844800000, ''description'' \<mapsto> VStr ''pasta'']"

definition entryJan15 :: obj where
  "entryJan15 = [''id'' \<mapsto> VNum 5, ''userId'' \<mapsto> VStr mockUserId,
                 ''timestamp'' \<mapsto> VDate 1705276800000, ''description'' \<mapsto> VStr ''rice'']"

definition foodDb :: database where
  "foodDb = \<lparr>rows = (\<lambda>t. [])(Users := [mockUser],
                FoodEntries := [entryJan01, entryFeb01, entryJan31, entryOther, entryJan15]),
              seqs = (\<lambda>t. 0)(FoodEntries := 5)\<rparr>"



text \<open>Six HRV samples of the authenticated user, one minute apart, stored out of order.\<close>

definition hrvSample :: "int \<Rightarrow> obj" where
  "hrvSample i = [''id'' \<mapsto> VNum i, ''userId'' \<mapsto> VStr mockUserId,
                  ''timestamp'' \<mapsto> VDate (1704067200000 + i * 60000),
                  ''heartRate'' \<mapsto> VNum (60 + i)]"

definition hrvDb :: database where
  "hrvDb = \<lparr>rows = (\<lambda>t. [])(Users := [mockUser],
               HrvData := [hrvSample 3, hrvSample 1, hrvSample 6, hrvSample 2, hrvSample 5,
                           hrvSample 4]),
             seqs = (\<lambda>t. 0)(HrvData := 6)\<rparr>"

definition hrvWorld :: world where
  "hrvWorld = \<lparr>db = hrvDb, trace = []\<rparr>"

definition limitRequest :: request where
  "limitRequest = request0\<lparr>query := (\<lambda>k. if k = ''limit'' then Some ''5'' else None)\<rparr>"

text \<open>A database in which only another user has a profile.\<close>

definition otherProfile :: obj where
  "otherProfile = [''id'' \<mapsto> VNum 1, ''userId'' \<mapsto> VStr otherUserId, ''age'' \<mapsto> VNum 51]"

definition otherUser :: obj where
  "otherUser = [''id'' \<mapsto> VStr otherUserId, ''email'' \<mapsto> VStr ''other@example.org'',
                ''userType'' \<mapsto> VStr ''patient'']"

definition profileDb :: database where
  "profileDb = \<lparr>rows = (\<lambda>t. [])(Users := [mockUser, otherUser], UserProfiles := [otherProfile]),
                 seqs = (\<lambda>t. 0)(UserProfiles := 1)\<rparr>"

definition profileWorld :: world where
  "profileWorld = \<lparr>db = profileDb, trace = []\<rparr>"

definition profileRequest :: request where
  "profileRequest =
     request0\<lparr>body := [''age'' \<mapsto> VNum 34, ''sex'' \<mapsto> VStr ''female'',
                        ''bloodType'' \<mapsto> VStr ''O+'']\<rparr>"

definition profileRequest2 :: request where
  "profileRequest2 =
     request0\<lparr>body := [''age'' \<mapsto> VNum 35, ''sex'' \<mapsto> VStr ''female'',
                        ''bloodType'' \<mapsto> VStr ''O+'']\<rparr>"

definition sampleProfile :: obj where
  "sampleProfile = [''userId'' \<mapsto> VStr mockUserId, ''age'' \<mapsto> VNum 34,
                  ''sex'' \<mapsto> VStr ''female'', ''bloodType'' \<mapsto> VStr ''O+'']"

definition sampleProfile2 :: obj where
  "sampleProfile2 = [''userId'' \<mapsto> VStr mockUserId, ''age'' \<mapsto> VNum 35,
                   ''sex'' \<mapsto> VStr ''female'', ''bloodType'' \<mapsto> VStr ''O+'']"

text \<open>Two versions of one user, keyed by the same email, and a later point in time.\<close>

definition sampleUser :: obj where
  "sampleUser = [''email'' \<mapsto> VStr ''ann@example.org'', ''firstName'' \<mapsto> VStr ''Ann'']"

definition sampleUser2 :: obj where
  "sampleUser2 = [''email'' \<mapsto> VStr ''ann@example.org'', ''firstName'' \<mapsto> VStr ''Anna'']"

definition env1 :: env where
  "env1 = env0\<lparr>dbNow := 1718000060000, jsNow := 1718000060000\<rparr>"

text \<open>A food entry whose body names another user as its owner.\<close>

definition spoofedRequest :: request where
  "spoofedRequest =
     request0\<lparr>body := [''userId'' \<mapsto> VStr otherUserId, ''description'' \<mapsto> VStr ''oatmeal'',
                        ''calories'' \<mapsto> VNum 320]\<rparr>"

definition spoofedData :: obj where
  "spoofedData = [''userId'' \<mapsto> VStr mockUserId, ''description'' \<mapsto> VStr ''oatmeal'',
                  ''calories'' \<mapsto> VNum 320]"

definition malformedRequest :: request where
  "malformedRequest = request0\<lparr>body := [''age'' \<mapsto> VStr ''old'', ''calories'' \<mapsto> VStr ''many'']\<rparr>"

definition imageRequest :: request where
  "imageRequest = request0\<lparr>body := [''base64Image'' \<mapsto> VStr ''/9j/4AAQSkZJRg=='']\<rparr>"

definition textRequest :: request where
  "textRequest = request0\<lparr>body := [''description'' \<mapsto> VStr ''two eggs and toast'']\<rparr>"

text \<open>A database with one scheduled appointment of the authenticated user.\<close>

definition appointment42 :: obj where
  "appointment42 = [''id'' \<mapsto> VNum 42, ''patientId'' \<mapsto> VStr mockUserId,
                    ''doctorId'' \<mapsto> VStr otherUserId,
                    ''appointmentDate'' \<mapsto> VDate 1719000000000,
                    ''status'' \<mapsto> VStr ''scheduled'',
                    ''updatedAt'' \<mapsto> VDate 1717000000000]"

definition clinicDb :: database where
  "clinicDb = \<lparr>rows = (\<lambda>t. [])(Users := [mockUser], Appointments := [appointment42]),
                seqs = (\<lambda>t. 0)(Appointments := 42)\<rparr>"

definition bogusStatusRequest :: request where
  "bogusStatusRequest =
     request0\<lparr>params := (\<lambda>k. if k = ''id'' then Some ''1'' else None),
               body := [''status'' \<mapsto> VStr ''bogus'']\<rparr>"

definition hugeIdRequest :: request where
  "hugeIdRequest =
     request0\<lparr>params := (\<lambda>k. if k = ''id'' then Some ''99999999999'' else None),
               body := [''status'' \<mapsto> VStr ''cancelled'']\<rparr>"

definition cancelRequest :: request where
  "cancelRequest =
     request0\<lparr>params := (\<lambda>k. if k = ''id'' then Some ''42'' else None),
               body := [''status'' \<mapsto> VStr ''cancelled'']\<rparr>"

section \<open>Properties of the route and storage layers\<close>

lemmas schema_defs =
  zod_parse_def createInsertSchema_def field_ok_def zod_accepts_def
  col_def serialPrimaryKey_def userRef_def notNull_def unique_def withDefault_def

subsection \<open>Explicit precondition checks\<close>

text \<open>
  Claim C8. Each explicit precondition check answers 400 with its own message and
  leaves the world as it was, so that neither a storage method nor the provider is
  called: the range route when either date bound is missing or empty, the image route
  when \<open>base64Image\<close> is missing or falsy, the text route when \<open>description\<close> is
  missing or falsy.
\<close>

theorem precondition_checks_answer_400:
  "(\<not> truthy_param (query req ''startDate'') \<or> \<not> truthy_param (query req ''endDate'') \<longrightarrow>
      serve GetFoodEntriesRange e p w req
        = (w, reply 400 ''Start date and end date are required''))
   \<and> (\<not> truthy (body req ''base64Image'') \<longrightarrow>
      serve PostAnalyzeFoodImage e p w req = (w, reply 400 ''Base64 image is required''))
   \<and> (\<not> truthy (body req ''description'') \<longrightarrow>
      serve PostAnalyzeFoodText e p w req = (w, reply 400 ''Food description is required''))"
  by (simp add: serve_def handler_def requireAuth_def get_food_entries_range_def
        post_analyze_food_image_def post_analyze_food_text_def split: option.splits)

theorem precondition_checks_answer_400_witness:
  "\<not> truthy_param (query request0 ''startDate'')
   \<and> serve GetFoodEntriesRange env0 rateLimited world0 request0
        = (world0, reply 400 ''Start date and end date are required'')
   \<and> \<not> truthy (body request0 ''base64Image'')
   \<and> serve PostAnalyzeFoodImage env0 rateLimited world0 request0
        = (world0, reply 400 ''Base64 image is required'')
   \<and> \<not> truthy (body request0 ''description'')
   \<and> serve PostAnalyzeFoodText env0 rateLimited world0 request0
        = (world0, reply 400 ''Food description is required'')"
  using precondition_checks_answer_400 [of request0 env0 rateLimited world0]
  by (simp add: request0_def truthy_param_def)

subsection \<open>Schema validation failures\<close>

text \<open>
  Claim C6. On each of the four schema-validated POST routes, a body that the schema
  rejects (after the handler has merged the user id into it) is answered with status
  500 and the route's generic message, not 400: the error thrown by \<open>parse\<close> reaches
  the handler's catch clause, which logs it. No storage method is called.
\<close>

theorem schema_failure_answers_500:
  "(zod_parse insertUserProfileSchema ((body req)(''userId'' \<mapsto> VStr mockUserId)) = Inl ZodError \<longrightarrow>
      serve PostProfile e p w req
        = (emit (ConsoleError ''Error updating profile:'' ZodError) w,
           reply 500 ''Failed to update profile''))
   \<and> (zod_parse insertFoodEntrySchema ((body req)(''userId'' \<mapsto> VStr mockUserId)) = Inl ZodError \<longrightarrow>
      serve PostFoodEntries e p w req
        = (emit (ConsoleError ''Error creating food entry:'' ZodError) w,
           reply 500 ''Failed to create food entry''))
   \<and> (zod_parse insertAppointmentSchema ((body req)(''patientId'' \<mapsto> VStr mockUserId)) = Inl ZodError \<longrightarrow>
      serve PostAppointments e p w req
        = (emit (ConsoleError ''Error creating appointment:'' ZodError) w,
           reply 500 ''Failed to create appointment''))
   \<and> (zod_parse insertMedicalDocumentSchema ((body req)(''userId'' \<mapsto> VStr mockUserId)) = Inl ZodError \<longrightarrow>
      serve PostMedicalDocuments e p w req
        = (emit (ConsoleError ''Error creating medical document:'' ZodError) w,
           reply 500 ''Failed to create medical document''))"
  by (simp add: serve_def handler_def requireAuth_def respond_def validated_def
        post_profile_def post_food_entries_def post_appointments_def post_medical_documents_def)

lemma malformed_profile_rejected:
  "zod_parse insertUserProfileSchema ((body malformedRequest)(''userId'' \<mapsto> VStr mockUserId))
     = Inl ZodError"
  by (simp add: malformedRequest_def request0_def insertUserProfileSchema_def userProfiles_def
        schema_defs)

lemma malformed_food_entry_rejected:
  "zod_parse insertFoodEntrySchema ((body malformedRequest)(''userId'' \<mapsto> VStr mockUserId))
     = Inl ZodError"
  by (simp add: malformedRequest_def request0_def insertFoodEntrySchema_def foodEntries_def
        schema_defs)

lemma malformed_appointment_rejected:
  "zod_parse insertAppointmentSchema ((body malformedRequest)(''patientId'' \<mapsto> VStr mockUserId))
     = Inl ZodError"
  by (simp add: malformedRequest_def request0_def insertAppointmentSchema_def appointments_def
        schema_defs)

lemma malformed_document_rejected:
  "zod_parse insertMedicalDocumentSchema ((body malformedRequest)(''userId'' \<mapsto> VStr mockUserId))
     = Inl ZodError"
  by (simp add: malformedRequest_def request0_def insertMedicalDocumentSchema_def
        medicalDocuments_def schema_defs)

theorem schema_failure_answers_500_witness:
  "zod_parse insertUserProfileSchema ((body malformedRequest)(''userId'' \<mapsto> VStr mockUserId))
     = Inl ZodError
   \<and> snd (serve PostProfile env0 rateLimited world0 malformedRequest)
       = reply 500 ''Failed to update profile''
   \<and> zod_parse insertFoodEntrySchema ((body malformedRequest)(''userId'' \<mapsto> VStr mockUserId))
       = Inl ZodError
   \<and> snd (serve PostFoodEntries env0 rateLimited world0 malformedRequest)
       = reply 500 ''Failed to create food entry''
   \<and> zod_parse insertAppointmentSchema ((body malformedRequest)(''patientId'' \<mapsto> VStr mockUserId))
       = Inl ZodError
   \<and> snd (serve PostAppointments env0 rateLimited world0 malformedRequest)
       = reply 500 ''Failed to create appointment''
   \<and> zod_parse insertMedicalDocumentSchema ((body malformedRequest)(''userId'' \<mapsto> VStr mockUserId))
       = Inl ZodError
   \<and> snd (serve PostMedicalDocuments env0 rateLimited world0 malformedRequest)
       = reply 500 ''Failed to create medical document''"
  using schema_failure_answers_500 [of malformedRequest env0 rateLimited world0]
    malformed_profile_rejected malformed_food_entry_rejected
    malformed_appointment_rejected malformed_document_rejected
  by simp

subsection \<open>Binding a user id\<close>

lemma pg_uuid_in_mock: "pg_uuid_in mockUserId = Some mockUserId"
  by code_simp

lemma pg_uuid_in_upper_case:
  "pg_uuid_in ''{550E8400E29B-41D4-A716-446655440000}'' = Some mockUserId"
  by code_simp

lemma pg_uuid_in_malformed: "pg_uuid_in ''not-a-uuid'' = None"
  by code_simp

lemma bind_uuid_accepted: "pg_uuid_in s = Some u \<Longrightarrow> bind_uuid s = Inr u"
  by (simp add: bind_uuid_def)

lemma bind_uuid_mock: "bind_uuid mockUserId = Inr mockUserId"
  by (simp add: bind_uuid_accepted pg_uuid_in_mock)

text \<open>A string that is no uuid makes every read by user id throw.\<close>

lemma reads_reject_malformed_user_id:
  assumes "pg_uuid_in uid = None"
  shows "getUserProfile d uid = Inl (PgError DataException)"
    and "getFoodEntries d uid limit = Inl (PgError DataException)"
    and "getFoodEntriesByDateRange d uid (Date s) (Date t) = Inl (PgError DataException)"
    and "getHRVData d uid limit = Inl (PgError DataException)"
  using assms
  by (simp_all add: bind_uuid_def getUserProfile_def getFoodEntries_def
        getFoodEntriesByDateRange_def getHRVData_def)

subsection \<open>Point lookup of a missing profile\<close>

lemma sample_profiles:
  "rows profileDb UserProfiles = [otherProfile]"
  "cell otherProfile ''userId'' = VStr otherUserId"
  "db profileWorld = profileDb"
  by (simp_all add: profileDb_def profileWorld_def otherProfile_def cell_def)

lemma other_user: "otherUserId \<noteq> mockUserId"
  by (simp add: otherUserId_def mockUserId_def)

text \<open>
  Claim C10. For every user id, in any spelling the database reads as a uuid (\<open>u\<close>
  is its lower-case form), when no stored profile row belongs to it \<open>getUserProfile\<close>
  returns \<open>undefined\<close> and raises nothing; \<open>GET /api/profile\<close>, whose user id is the
  fixed one, then answers status 200 with no body, after its one storage call.
\<close>

theorem missing_profile_is_absent:
  "(pg_uuid_in uid = Some u
      \<and> list_all (\<lambda>r. cell r ''userId'' \<noteq> VStr u) (rows d UserProfiles) \<longrightarrow>
      getUserProfile d uid = Inr None)
   \<and> (list_all (\<lambda>r. cell r ''userId'' \<noteq> VStr mockUserId) (rows (db w) UserProfiles) \<longrightarrow>
      serve GetProfile e p w req
        = (emit (StorageCall ''getUserProfile'') w, \<lparr>status = 200, payload = Absent\<rparr>))"
  by (simp add: serve_def handler_def requireAuth_def respond_def storage_read_def
        get_profile_def getUserProfile_def bind_uuid_accepted bind_uuid_mock pg_select_def
        eq_def first_row_def list_all_iff filter_empty_conv [THEN iffD2] json_row_def)

theorem missing_profile_is_absent_witness:
  "pg_uuid_in mockUserId = Some mockUserId
   \<and> rows profileDb UserProfiles = [otherProfile]
   \<and> list_all (\<lambda>r. cell r ''userId'' \<noteq> VStr mockUserId) (rows profileDb UserProfiles)
   \<and> getUserProfile profileDb mockUserId = Inr None
   \<and> snd (serve GetProfile env0 rateLimited profileWorld request0)
       = \<lparr>status = 200, payload = Absent\<rparr>"
  using missing_profile_is_absent
          [of mockUserId mockUserId profileDb profileWorld env0 rateLimited request0]
  by (simp add: pg_uuid_in_mock sample_profiles other_user)

subsection \<open>Failures of the analysis provider\<close>

lemma ask_fails_iff:
  "ask p req = Inl m \<longleftrightarrow>
     messages_create p req = Inl m
     \<or> (\<exists>blocks. messages_create p req = Inr blocks
           \<and> (first_text blocks = Inl m
               \<or> (\<exists>s. first_text blocks = Inr s \<and> json_parse p s = Inl m)))"
  by (auto simp: ask_def split: sum.splits)

lemma ask_rateLimited: "ask rateLimited r = Inl ''rate_limit_error''"
  by (simp add: ask_def rateLimited_def)

text \<open>
  Claim C5, as stated, fails: when the provider answers \<open>rate_limit_error\<close> the image
  route responds 500 with a message that does not contain that text.
\<close>

theorem provider_failure_text_not_in_response:
  "ask rateLimited \<lparr>model = DEFAULT_MODEL_STR, max_tokens = 1500,
                     content = AnalyzeImage (VStr ''/9j/4AAQSkZJRg=='')\<rparr>
     = Inl ''rate_limit_error''
   \<and> status (snd (serve PostAnalyzeFoodImage env0 rateLimited world0 imageRequest)) = 500
   \<and> \<not> sublist ''rate_limit_error''
         (message_of (payload (snd (serve PostAnalyzeFoodImage env0 rateLimited world0
                                      imageRequest))))"
  by (simp add: serve_def handler_def requireAuth_def respond_def emit_def reply_def
        message_of_def post_analyze_food_image_def analyzeFoodImage_def Let_def ask_rateLimited
        imageRequest_def request0_def sublist_code prefix_code)

text \<open>
  Claim C5, amended. Whenever the provider call, the reading of the first content
  block or the JSON parse fails with a message \<open>m\<close>, the route responds 500 with its
  fixed generic message (\<open>Failed to analyze food image\<close>, \<open>Failed to analyze food
  description\<close>), whatever \<open>m\<close> is. The failure text is embedded in the error the
  collaborator throws and in the two lines logged to the console, not in the response.
\<close>

theorem provider_failure_answers_generic_500:
  "(body req ''base64Image'' = Some v \<and> truthy (Some v)
      \<and> ask p \<lparr>model = DEFAULT_MODEL_STR, max_tokens = 1500, content = AnalyzeImage v\<rparr> = Inl m \<longrightarrow>
        snd (serve PostAnalyzeFoodImage e p w req) = reply 500 ''Failed to analyze food image''
      \<and> snd (analyzeFoodImage p w v) = Inl (Error (''Failed to analyze food image: '' @ m))
      \<and> trace (fst (serve PostAnalyzeFoodImage e p w req))
          = trace w @ [ProviderCall \<lparr>model = DEFAULT_MODEL_STR, max_tokens = 1500,
                                     content = AnalyzeImage v\<rparr>,
                       ConsoleError ''Food analysis error:'' (Error m),
                       ConsoleError ''Error analyzing food image:''
                         (Error (''Failed to analyze food image: '' @ m))])
   \<and> (body req ''description'' = Some v \<and> truthy (Some v)
      \<and> ask p \<lparr>model = DEFAULT_MODEL_STR, max_tokens = 1500, content = AnalyzeText v\<rparr> = Inl m \<longrightarrow>
        snd (serve PostAnalyzeFoodText e p w req) = reply 500 ''Failed to analyze food description''
      \<and> snd (analyzeFoodText p w v) = Inl (Error (''Failed to analyze food description: '' @ m))
      \<and> trace (fst (serve PostAnalyzeFoodText e p w req))
          = trace w @ [ProviderCall \<lparr>model = DEFAULT_MODEL_STR, max_tokens = 1500,
                                     content = AnalyzeText v\<rparr>,
                       ConsoleError ''Food text analysis error:'' (Error m),
                       ConsoleError ''Error analyzing food text:''
                         (Error (''Failed to analyze food description: '' @ m))])"
  by (simp add: serve_def handler_def requireAuth_def respond_def emit_def
        post_analyze_food_image_def post_analyze_food_text_def analyzeFoodImage_def
        analyzeFoodText_def Let_def)

theorem provider_failure_answers_generic_500_witness:
  "body imageRequest ''base64Image'' = Some (VStr ''/9j/4AAQSkZJRg=='')
   \<and> truthy (Some (VStr ''/9j/4AAQSkZJRg==''))
   \<and> ask rateLimited \<lparr>model = DEFAULT_MODEL_STR, max_tokens = 1500,
                       content = AnalyzeImage (VStr ''/9j/4AAQSkZJRg=='')\<rparr>
       = Inl ''rate_limit_error''
   \<and> snd (serve PostAnalyzeFoodImage env0 rateLimited world0 imageRequest)
       = reply 500 ''Failed to analyze food image''
   \<and> snd (analyzeFoodImage rateLimited world0 (VStr ''/9j/4AAQSkZJRg==''))
       = Inl (Error ''Failed to analyze food image: rate_limit_error'')
   \<and> body textRequest ''description'' = Some (VStr ''two eggs and toast'')
   \<and> ask rateLimited \<lparr>model = DEFAULT_MODEL_STR, max_tokens = 1500,
                       content = AnalyzeText (VStr ''two eggs and toast'')\<rparr>
       = Inl ''rate_limit_error''
   \<and> snd (serve PostAnalyzeFoodText env0 rateLimited world0 textRequest)
       = reply 500 ''Failed to analyze food description''"
  using provider_failure_answers_generic_500
          [of imageRequest "VStr ''/9j/4AAQSkZJRg==''" rateLimited "''rate_limit_error''"
              env0 world0]
        provider_failure_answers_generic_500
          [of textRequest "VStr ''two eggs and toast''" rateLimited "''rate_limit_error''"
              env0 world0]
  by (simp add: ask_rateLimited imageRequest_def textRequest_def request0_def)

subsection \<open>Updating the status of an appointment\<close>

lemma parseInt_rounds:
  "parseInt ''9223372036854775807'' = Num 9223372036854775808"
  "parseInt ''9007199254740993'' = Num 9007199254740992"
  "parseInt '' -42px'' = Num (- 42)"
  "parseInt ''0x1F'' = Num 31"
  "parseInt ''abc'' = NaN"
  by (simp_all add: parseInt_def is_space_def is_digit_def digit_val_def digits_value_def
        round_double_def compute_floorlog)

lemma id_param_auth: "id_param (req\<lparr>userId := u\<rparr>) = id_param req"
  by (simp add: id_param_def)

lemma bind_status_accepted:
  "(case st of None \<Rightarrow> True
    | Some v \<Rightarrow> v = VNull \<or> (\<exists>s. v = VStr s \<and> s \<in> set appointmentStatusEnum)) \<Longrightarrow>
   bind_ok appointments
     ((case st of None \<Rightarrow> Map.empty | Some v \<Rightarrow> [''status'' \<mapsto> v])(''updatedAt'' \<mapsto> VDate t))"
  by (auto simp: bind_ok_def appointments_def col_def serialPrimaryKey_def userRef_def
        notNull_def withDefault_def pg_accepts_def split: option.splits)

lemma bind_status_rejected:
  "s \<notin> set appointmentStatusEnum \<Longrightarrow>
   \<not> bind_ok appointments ([''status'' \<mapsto> VStr s](''updatedAt'' \<mapsto> VDate t))"
  by (simp add: bind_ok_def appointments_def col_def serialPrimaryKey_def userRef_def
        notNull_def withDefault_def pg_accepts_def)

lemma status_assignment_keeps_not_null:
  "\<not> list_ex (\<lambda>c. c_notNull c
        \<and> ((case st of None \<Rightarrow> Map.empty | Some v \<Rightarrow> [''status'' \<mapsto> v])
               (''updatedAt'' \<mapsto> VDate t)) (cname c) = Some VNull) appointments"
  by (simp add: appointments_def col_def serialPrimaryKey_def userRef_def
        notNull_def withDefault_def split: option.splits)

lemma map_no_match: "list_all (\<lambda>r. \<not> P r) rs \<Longrightarrow> map (\<lambda>r. if P r then f r else r) rs = rs"
  by (induction rs) auto

lemma updateAppointmentStatus_accepted:
  assumes "int4 n"
    and "(case st of None \<Rightarrow> True
          | Some v \<Rightarrow> v = VNull \<or> (\<exists>s. v = VStr s \<and> s \<in> set appointmentStatusEnum))"
  shows "snd (updateAppointmentStatus e d (Num n) st) = Inr ()"
    and "list_all (\<lambda>r. cell r ''id'' \<noteq> VNum n) (rows d Appointments) \<Longrightarrow>
         fst (updateAppointmentStatus e d (Num n) st) = d"
proof -
  define S where
    "S = (case st of None \<Rightarrow> Map.empty | Some v \<Rightarrow> [''status'' \<mapsto> v])
           (''updatedAt'' \<mapsto> VDate (jsNow e))"
  have b: "bind_ok (columns Appointments) S"
    unfolding S_def using bind_status_accepted [OF assms(2)] by simp
  have nn: "\<not> list_ex (\<lambda>c. c_notNull c \<and> S (cname c) = Some VNull) (columns Appointments)"
    unfolding S_def using status_assignment_keeps_not_null [of st "jsNow e"] by simp
  have u: "updateAppointmentStatus e d (Num n) st
             = pg_update d Appointments S (eq ''id'' (VNum n))"
    using assms(1) by (simp add: updateAppointmentStatus_def bind_int4_def S_def)
  show "snd (updateAppointmentStatus e d (Num n) st) = Inr ()"
    unfolding u pg_update_def using b nn by simp
  show "fst (updateAppointmentStatus e d (Num n) st) = d"
    if "list_all (\<lambda>r. cell r ''id'' \<noteq> VNum n) (rows d Appointments)"
  proof -
    have "list_all (\<lambda>r. \<not> eq ''id'' (VNum n) r) (rows d Appointments)"
      using that by (simp add: eq_def list_all_iff)
    then have "map (\<lambda>r. if eq ''id'' (VNum n) r then assign (columns Appointments) S r else r)
                 (rows d Appointments) = rows d Appointments"
      by (rule map_no_match)
    then show ?thesis
      unfolding u pg_update_def using b nn by simp
  qed
qed

lemma updateAppointmentStatus_rejected:
  assumes "int4 n" and "s \<notin> set appointmentStatusEnum"
  shows "updateAppointmentStatus e d (Num n) (Some (VStr s)) = (d, Inl (PgError DataException))"
  using assms bind_status_rejected [of s "jsNow e"]
  by (simp add: updateAppointmentStatus_def bind_int4_def pg_update_def)

lemma updateAppointmentStatus_out_of_range:
  "\<not> int4 n \<Longrightarrow> updateAppointmentStatus e d (Num n) st = (d, Inl (PgError DataException))"
  by (simp add: updateAppointmentStatus_def bind_int4_def)

lemma updateAppointmentStatus_stored:
  "snd (updateAppointmentStatus env1 clinicDb (Num 42) (Some (VStr ''cancelled''))) = Inr ()
   \<and> map (\<lambda>r. map r [''id'', ''status'', ''updatedAt''])
         (rows (fst (updateAppointmentStatus env1 clinicDb (Num 42) (Some (VStr ''cancelled''))))
            Appointments)
       = [[Some (VNum 42), Some (VStr ''cancelled''), Some (VDate 1718000060000)]]"
  by code_simp

lemma patch_unfold:
  "serve PatchAppointmentStatus e p w req =
     respond ''Error updating appointment status:'' ''Failed to update appointment status''
       json_message
       (storage_write ''updateAppointmentStatus''
          (\<lambda>d. updateAppointmentStatus e d (id_param req) (body req ''status'')) w)"
  by (simp add: serve_def handler_def requireAuth_def patch_appointment_status_def id_param_auth)

lemma sample_id_params:
  "id_param bogusStatusRequest = Num 1"
  "id_param cancelRequest = Num 42"
  "id_param hugeIdRequest = Num 99999999999"
  by (simp_all add: id_param_def bogusStatusRequest_def cancelRequest_def hugeIdRequest_def
        request0_def parseInt_def is_space_def is_digit_def digit_val_def digits_value_def round_double_def)

lemma sample_statuses:
  "body bogusStatusRequest ''status'' = Some (VStr ''bogus'')"
  "body cancelRequest ''status'' = Some (VStr ''cancelled'')"
  "body hugeIdRequest ''status'' = Some (VStr ''cancelled'')"
  by (simp_all add: bogusStatusRequest_def cancelRequest_def hugeIdRequest_def request0_def)

lemma bogus_not_a_status: "''bogus'' \<notin> set appointmentStatusEnum"
  by (simp add: appointmentStatusEnum_def)

text \<open>
  Claim C9, as stated, fails: the handler does not validate the status, but the
  \<open>status\<close> column is an enum, and the database rejects the string \<open>bogus\<close>; it also
  rejects an id beyond the 32-bit range of the \<open>serial\<close> column. Both answers are 500.
\<close>

theorem unknown_status_answers_500:
  "''bogus'' \<notin> set appointmentStatusEnum
   \<and> body bogusStatusRequest ''status'' = Some (VStr ''bogus'')
   \<and> snd (serve PatchAppointmentStatus env0 rateLimited world0 bogusStatusRequest)
       = \<lparr>status = 500, payload = Message ''Failed to update appointment status''\<rparr>
   \<and> params hugeIdRequest ''id'' = Some ''99999999999''
   \<and> snd (serve PatchAppointmentStatus env0 rateLimited world0 hugeIdRequest)
       = \<lparr>status = 500, payload = Message ''Failed to update appointment status''\<rparr>"
  by (simp add: patch_unfold respond_def storage_write_def emit_def reply_def sample_id_params
        sample_statuses bogus_not_a_status updateAppointmentStatus_rejected
        updateAppointmentStatus_out_of_range int4_def)
    (simp add: hugeIdRequest_def request0_def)

text \<open>
  Claim C9, amended. For every id that \<open>parseInt\<close> reads from the path as a 32-bit
  integer, including one matching no stored appointment, and for a status that is
  absent, \<open>null\<close> or one of the four enumerated strings, the route answers 200 with
  \<open>Appointment status updated\<close>; when no row has that id the database is left as it
  was, which the handler does not detect. The handler validates nothing, but a status
  string outside the enumerated set is rejected by the enum column: the answer is 500
  with \<open>Failed to update appointment status\<close> and the database is unchanged.
\<close>

theorem status_update_answers:
  "(id_param req = Num n \<and> int4 n
      \<and> (case body req ''status'' of
            None \<Rightarrow> True
          | Some v \<Rightarrow> v = VNull \<or> (\<exists>s. v = VStr s \<and> s \<in> set appointmentStatusEnum)) \<longrightarrow>
        snd (serve PatchAppointmentStatus e p w req)
          = \<lparr>status = 200, payload = Message ''Appointment status updated''\<rparr>
        \<and> (list_all (\<lambda>r. cell r ''id'' \<noteq> VNum n) (rows (db w) Appointments) \<longrightarrow>
             db (fst (serve PatchAppointmentStatus e p w req)) = db w))
   \<and> (id_param req = Num n \<and> int4 n \<and> body req ''status'' = Some (VStr s)
        \<and> s \<notin> set appointmentStatusEnum \<longrightarrow>
        snd (serve PatchAppointmentStatus e p w req)
          = reply 500 ''Failed to update appointment status''
        \<and> db (fst (serve PatchAppointmentStatus e p w req)) = db w)"
  by (simp add: patch_unfold respond_def storage_write_def emit_def json_message_def
        updateAppointmentStatus_accepted updateAppointmentStatus_rejected)

theorem status_update_answers_witness:
  "id_param cancelRequest = Num 42 \<and> int4 42
   \<and> body cancelRequest ''status'' = Some (VStr ''cancelled'')
   \<and> ''cancelled'' \<in> set appointmentStatusEnum
   \<and> list_all (\<lambda>r. cell r ''id'' \<noteq> VNum 42) (rows (db world0) Appointments)
   \<and> snd (serve PatchAppointmentStatus env0 rateLimited world0 cancelRequest)
       = \<lparr>status = 200, payload = Message ''Appointment status updated''\<rparr>
   \<and> db (fst (serve PatchAppointmentStatus env0 rateLimited world0 cancelRequest)) = db world0
   \<and> id_param bogusStatusRequest = Num 1 \<and> int4 1
   \<and> snd (serve PatchAppointmentStatus env0 rateLimited world0 bogusStatusRequest)
       = reply 500 ''Failed to update appointment status''"
proof -
  have c: "''cancelled'' \<in> set appointmentStatusEnum"
    by (simp add: appointmentStatusEnum_def)
  have r: "list_all (\<lambda>r. cell r ''id'' \<noteq> VNum 42) (rows (db world0) Appointments)"
    by (simp add: world0_def seededDb_def)
  have i: "int4 42" "int4 1"
    by (simp_all add: int4_def)
  show ?thesis
    using status_update_answers [of cancelRequest 42 env0 rateLimited world0 "''bogus''"]
          status_update_answers [of bogusStatusRequest 1 env0 rateLimited world0 "''bogus''"]
    by (simp add: sample_id_params sample_statuses bogus_not_a_status c r i)
qed

subsection \<open>Listings: owner, order, range and limit\<close>

lemma desc_key_le: "desc_key k a \<le> desc_key k b \<longleftrightarrow> newer_or_same k a b"
  by (cases "stamp k a"; cases "stamp k b") (simp_all add: desc_key_def newer_or_same_def)

lemma newest_first_order_by_desc: "newest_first k (order_by_desc k rs)"
proof -
  have "sorted (map (desc_key k) (sort_key (desc_key k) rs))"
    by (rule sorted_sort_key)
  then show ?thesis
    by (simp add: newest_first_def order_by_desc_def sorted_wrt_map desc_key_le)
qed

lemma mset_order_by_desc: "mset (order_by_desc k rs) = mset rs"
  by (simp add: order_by_desc_def)

lemma limit_clause_take:
  "0 \<le> n \<Longrightarrow> n \<le> 9223372036854775807 \<Longrightarrow> limit_clause (Num n) rs = Inr (take (nat n) rs)"
  by (simp add: limit_clause_def int8_def)

lemma eq_str: "eq c (VStr u) = (\<lambda>r. cell r c = VStr u)"
  by (simp add: eq_def fun_eq_iff)


lemma limit_param_auth: "limit_param (req\<lparr>userId := u\<rparr>) = limit_param req"
  by (simp add: limit_param_def)

lemma newest_first_prefix:
  assumes "newest_first k L" and "mset L = mset owned"
  shows "\<exists>rest. mset (take n L @ rest) = mset owned \<and> newest_first k (take n L @ rest)
           \<and> length (take n L) = min n (length owned)"
proof -
  have "length L = length owned"
    using assms(2) by (metis size_mset)
  then show ?thesis
    using assms by (intro exI [of _ "drop n L"]) (simp add: min.commute)
qed

lemma listing_prefix:
  assumes "0 \<le> n" and "n \<le> 9223372036854775807"
  shows "\<exists>rs rest. limit_clause (Num n) (order_by_desc k (pg_select d t (eq c (VStr uid)))) = Inr rs
           \<and> mset (rs @ rest) = mset (filter (\<lambda>r. cell r c = VStr uid) (rows d t))
           \<and> newest_first k (rs @ rest)
           \<and> length rs = min (nat n) (length (filter (\<lambda>r. cell r c = VStr uid) (rows d t)))"
proof -
  let ?owned = "filter (\<lambda>r. cell r c = VStr uid) (rows d t)"
  let ?L = "order_by_desc k (pg_select d t (eq c (VStr uid)))"
  have sel: "pg_select d t (eq c (VStr uid)) = ?owned"
    by (simp add: pg_select_def eq_str)
  have "newest_first k ?L" by (rule newest_first_order_by_desc)
  moreover have "mset ?L = mset ?owned" by (simp add: mset_order_by_desc sel)
  ultimately obtain rest where
    "mset (take (nat n) ?L @ rest) = mset ?owned \<and> newest_first k (take (nat n) ?L @ rest)
       \<and> length (take (nat n) ?L) = min (nat n) (length ?owned)"
    using newest_first_prefix by blast
  then show ?thesis
    using limit_clause_take [OF assms] by blast
qed

lemma sample_entries:
  "stamp ''timestamp'' entryJan01 = Some 1704067200000"
  "stamp ''timestamp'' entryFeb01 = Some 1706745600000"
  "stamp ''timestamp'' entryJan31 = Some 1706659200000"
  "stamp ''timestamp'' entryOther = Some 1704844800000"
  "stamp ''timestamp'' entryJan15 = Some 1705276800000"
  "cell entryJan01 ''userId'' = VStr mockUserId"
  "cell entryFeb01 ''userId'' = VStr mockUserId"
  "cell entryJan31 ''userId'' = VStr mockUserId"
  "cell entryOther ''userId'' = VStr otherUserId"
  "cell entryJan15 ''userId'' = VStr mockUserId"
  by (simp_all add: stamp_def cell_def entryJan01_def entryFeb01_def entryJan31_def
        entryOther_def entryJan15_def)

lemma sample_hrv:
  "stamp ''timestamp'' (hrvSample i) = Some (1704067200000 + i * 60000)"
  "cell (hrvSample i) ''userId'' = VStr mockUserId"
  by (simp_all add: stamp_def cell_def hrvSample_def)


lemma two_newest_entries:
  "getFoodEntries foodDb mockUserId (Some (Num 2)) = Inr [entryFeb01, entryJan31]"
  by (simp add: getFoodEntries_def bind_uuid_mock limit_clause_def int8_def pg_select_def
        order_by_desc_def desc_key_def eq_def foodDb_def sample_entries other_user)

lemma five_newest_samples:
  "getHRVData hrvDb mockUserId (Some (Num 5))
     = Inr [hrvSample 6, hrvSample 5, hrvSample 4, hrvSample 3, hrvSample 2]"
  by (simp add: getHRVData_def bind_uuid_mock limit_clause_def int8_def pg_select_def
        order_by_desc_def desc_key_def eq_def hrvDb_def sample_hrv)



text \<open>
  Claim C7. \<open>getFoodEntries\<close> without a limit is \<open>getFoodEntries\<close> with limit 50, and
  \<open>getHRVData\<close> without a limit is \<open>getHRVData\<close> with limit 100. For every user id, in
  any spelling the database reads as a uuid (\<open>u\<close> is its lower-case form), and every
  limit \<open>n\<close> from 0 up to the largest 64-bit integer, each returns, without error, the
  first \<open>n\<close> rows (all of them when there are fewer) of a newest-first arrangement
  of all the rows of that user. With limit 5 \<open>getHRVData\<close> returns at most 5 rows, and
  so does \<open>GET /api/hrv-data?limit=5\<close>, which answers 200 with the rows the storage
  method returned.
\<close>

theorem listings_newest_first_with_limit:
  "getFoodEntries d uid None = getFoodEntries d uid (Some (Num 50))
   \<and> getHRVData d uid None = getHRVData d uid (Some (Num 100))
   \<and> (pg_uuid_in uid = Some u \<and> 0 \<le> n \<and> n \<le> 9223372036854775807 \<longrightarrow>
        (\<exists>rs rest. getFoodEntries d uid (Some (Num n)) = Inr rs
           \<and> mset (rs @ rest)
               = mset (filter (\<lambda>r. cell r ''userId'' = VStr u) (rows d FoodEntries))
           \<and> newest_first ''timestamp'' (rs @ rest)
           \<and> length rs
               = min (nat n)
                   (length (filter (\<lambda>r. cell r ''userId'' = VStr u) (rows d FoodEntries))))
      \<and> (\<exists>rs rest. getHRVData d uid (Some (Num n)) = Inr rs
           \<and> mset (rs @ rest)
               = mset (filter (\<lambda>r. cell r ''userId'' = VStr u) (rows d HrvData))
           \<and> newest_first ''timestamp'' (rs @ rest)
           \<and> length rs
               = min (nat n)
                   (length (filter (\<lambda>r. cell r ''userId'' = VStr u) (rows d HrvData)))))
   \<and> (pg_uuid_in uid = Some u \<longrightarrow>
        (\<exists>rs. getHRVData d uid (Some (Num 5)) = Inr rs \<and> length rs \<le> 5))
   \<and> (query req ''limit'' = Some ''5'' \<longrightarrow>
        (\<exists>rs. getHRVData (db w) mockUserId (Some (Num 5)) = Inr rs
           \<and> snd (serve GetHrvData e p w req) = \<lparr>status = 200, payload = Rows rs\<rparr>
           \<and> length rs \<le> 5))"
proof (intro conjI impI)
  show "getFoodEntries d uid None = getFoodEntries d uid (Some (Num 50))"
    by (simp add: getFoodEntries_def split: sum.splits)
  show "getHRVData d uid None = getHRVData d uid (Some (Num 100))"
    by (simp add: getHRVData_def split: sum.splits)
  show "\<exists>rs rest. getFoodEntries d uid (Some (Num n)) = Inr rs
           \<and> mset (rs @ rest)
               = mset (filter (\<lambda>r. cell r ''userId'' = VStr u) (rows d FoodEntries))
           \<and> newest_first ''timestamp'' (rs @ rest)
           \<and> length rs
               = min (nat n)
                   (length (filter (\<lambda>r. cell r ''userId'' = VStr u) (rows d FoodEntries)))"
    if "pg_uuid_in uid = Some u \<and> 0 \<le> n \<and> n \<le> 9223372036854775807"
    using listing_prefix [of n "''timestamp''" d FoodEntries "''userId''" u] that
    by (simp add: getFoodEntries_def bind_uuid_accepted)
  show "\<exists>rs rest. getHRVData d uid (Some (Num n)) = Inr rs
           \<and> mset (rs @ rest)
               = mset (filter (\<lambda>r. cell r ''userId'' = VStr u) (rows d HrvData))
           \<and> newest_first ''timestamp'' (rs @ rest)
           \<and> length rs
               = min (nat n)
                   (length (filter (\<lambda>r. cell r ''userId'' = VStr u) (rows d HrvData)))"
    if "pg_uuid_in uid = Some u \<and> 0 \<le> n \<and> n \<le> 9223372036854775807"
    using listing_prefix [of n "''timestamp''" d HrvData "''userId''" u] that
    by (simp add: getHRVData_def bind_uuid_accepted)
  show "\<exists>rs. getHRVData d uid (Some (Num 5)) = Inr rs \<and> length rs \<le> 5"
    if "pg_uuid_in uid = Some u"
    using that by (simp add: getHRVData_def bind_uuid_accepted limit_clause_def int8_def)
  show "\<exists>rs. getHRVData (db w) mockUserId (Some (Num 5)) = Inr rs
           \<and> snd (serve GetHrvData e p w req) = \<lparr>status = 200, payload = Rows rs\<rparr>
           \<and> length rs \<le> 5"
    if "query req ''limit'' = Some ''5''"
  proof -
    have "limit_param req = Some (Num 5)"
      using that
      by (simp add: limit_param_def parseInt_def is_space_def is_digit_def digit_val_def
            digits_value_def round_double_def)
    then show ?thesis
      by (simp add: serve_def handler_def requireAuth_def get_hrv_data_def respond_def
            storage_read_def limit_param_auth getHRVData_def bind_uuid_mock limit_clause_def
            int8_def)
  qed
qed

theorem listings_newest_first_with_limit_witness:
  "pg_uuid_in mockUserId = Some mockUserId
   \<and> (0::int) \<le> 5 \<and> (5::int) \<le> 9223372036854775807
   \<and> query limitRequest ''limit'' = Some ''5''
   \<and> getHRVData hrvDb mockUserId (Some (Num 5))
       = Inr [hrvSample 6, hrvSample 5, hrvSample 4, hrvSample 3, hrvSample 2]
   \<and> length (filter (\<lambda>r. cell r ''userId'' = VStr mockUserId) (rows hrvDb HrvData)) = 6
   \<and> snd (serve GetHrvData env0 rateLimited hrvWorld limitRequest)
       = \<lparr>status = 200,
          payload = Rows [hrvSample 6, hrvSample 5, hrvSample 4, hrvSample 3, hrvSample 2]\<rparr>
   \<and> getFoodEntries foodDb mockUserId (Some (Num 2)) = Inr [entryFeb01, entryJan31]
   \<and> getHRVData hrvDb mockUserId None = getHRVData hrvDb mockUserId (Some (Num 100))"
proof -
  have q: "query limitRequest ''limit'' = Some ''5''"
    by (simp add: limitRequest_def request0_def)
  have n: "length (filter (\<lambda>r. cell r ''userId'' = VStr mockUserId) (rows hrvDb HrvData)) = 6"
    by (simp add: hrvDb_def sample_hrv)
  have w: "db hrvWorld = hrvDb"
    by (simp add: hrvWorld_def)
  show ?thesis
    using listings_newest_first_with_limit
            [of hrvDb mockUserId mockUserId 5 limitRequest hrvWorld env0 rateLimited]
    by (simp add: pg_uuid_in_mock q n w five_newest_samples two_newest_entries)
qed

text \<open>A date before the year 0001 or after the year 9999 makes the range query throw.\<close>

lemma range_rejects_expanded_year:
  "pg_uuid_in uid = Some u \<Longrightarrow> \<not> (timestamp_text_ok s \<and> timestamp_text_ok t) \<Longrightarrow>
   getFoodEntriesByDateRange d uid (Date s) (Date t) = Inl (PgError DataException)"
  by (simp add: getFoodEntriesByDateRange_def bind_uuid_accepted)

text \<open>A limit beyond the 64-bit range makes the listing throw.\<close>

lemma listing_rejects_huge_limit:
  "pg_uuid_in uid = Some u \<Longrightarrow>
   getFoodEntries d uid (Some (Num 100000000000000000000)) = Inl (PgError DataException)"
  by (simp add: getFoodEntries_def bind_uuid_accepted limit_clause_def int8_def)

subsection \<open>The owner of a created row\<close>

lemmas col_defs = col_def serialPrimaryKey_def userRef_def notNull_def unique_def withDefault_def

lemma upsertUserProfile_rejected:
  "upsertUserProfile e d profileData = (d, Inl (PgError NoUniqueConstraintForOnConflict))"
  by (simp add: upsertUserProfile_def pg_insert_on_conflict_update_def returning_first_def
        userProfiles_def col_defs)

lemma post_profile_always_500:
  "snd (serve PostProfile e p w req) = reply 500 ''Failed to update profile''
   \<and> db (fst (serve PostProfile e p w req)) = db w"
  by (simp add: serve_def handler_def requireAuth_def post_profile_def respond_def validated_def
        storage_write_def emit_def upsertUserProfile_rejected split: sum.splits)

lemma db_respond [simp]: "db (fst (respond l m f x)) = db (fst x)"
  by (simp add: respond_def emit_def split: sum.splits)

lemma db_storage_write [simp]: "db (fst (storage_write n f w)) = fst (f (db w))"
  by (simp add: storage_write_def emit_def)

lemma db_validated:
  "db (fst (validated sch input k w))
     = (case zod_parse sch input of Inl err \<Rightarrow> db w | Inr parsed \<Rightarrow> db (fst (k parsed w)))"
  by (simp add: validated_def split: sum.splits)

lemma pg_insert_rows:
  "rows (fst (pg_insert e d t vals)) t' = rows d t'
   \<or> (t' = t \<and> rows (fst (pg_insert e d t vals)) t'
                 = rows d t' @ [new_row e (seqs d t + 1) (columns t) vals])"
  by (simp add: pg_insert_def Let_def step_seq_def append_row_def split: option.splits)

lemma new_row_given:
  "find (\<lambda>c. cname c = k) cols = Some c \<Longrightarrow> vals k = Some v \<Longrightarrow>
   new_row e n cols vals k = Some (canon (ctype c) v)"
  by (simp add: new_row_def)

lemma canon_owner: "canon (ctype (userRef k)) (VStr mockUserId) = VStr mockUserId"
  by (simp add: canon_def userRef_def pg_uuid_in_mock)

lemma owner_columns:
  "find (\<lambda>c. cname c = ''userId'') (columns FoodEntries) = Some (userRef ''userId'')"
  "find (\<lambda>c. cname c = ''userId'') (columns HrvData) = Some (userRef ''userId'')"
  "find (\<lambda>c. cname c = ''patientId'') (columns Appointments) = Some (userRef ''patientId'')"
  "find (\<lambda>c. cname c = ''userId'') (columns MedicalDocuments) = Some (userRef ''userId'')"
  "find (\<lambda>c. cname c = ''userId'') (columns AiConversations) = Some (userRef ''userId'')"
  by (simp_all add: foodEntries_def hrvData_def appointments_def medicalDocuments_def
        aiConversations_def col_defs)

lemma parsed_owner:
  "zod_parse insertFoodEntrySchema input = Inr parsed \<Longrightarrow> parsed ''userId'' = input ''userId''"
  "zod_parse insertAppointmentSchema input = Inr parsed \<Longrightarrow> parsed ''patientId'' = input ''patientId''"
  "zod_parse insertMedicalDocumentSchema input = Inr parsed \<Longrightarrow> parsed ''userId'' = input ''userId''"
  by (auto simp: zod_parse_def createInsertSchema_def insertFoodEntrySchema_def
        insertAppointmentSchema_def insertMedicalDocumentSchema_def foodEntries_def
        appointments_def medicalDocuments_def col_defs split: if_splits)

lemma insert_owner:
  assumes "find (\<lambda>c. cname c = k) (columns t) = Some c" and "vals k = Some v"
    and "canon (ctype c) v = v"
  shows "rows (fst (pg_insert e d t vals)) t' = rows d t'
         \<or> (\<exists>r. t' = t \<and> rows (fst (pg_insert e d t vals)) t' = rows d t' @ [r] \<and> r k = Some v)"
  using pg_insert_rows [of e d t vals t']
    new_row_given [of k "columns t" c vals v e "seqs d t + 1"] assms by auto

lemma create_unfold:
  "serve PostFoodEntries e p w req =
     respond ''Error creating food entry:'' ''Failed to create food entry'' json_row
       (validated insertFoodEntrySchema ((body req)(''userId'' \<mapsto> VStr mockUserId))
          (\<lambda>entryData. storage_write ''createFoodEntry'' (\<lambda>d. createFoodEntry e d entryData)) w)"
  "serve PostHrvData e p w req =
     respond ''Error creating HRV data:'' ''Failed to create HRV data'' json_row
       (storage_write ''createHRVData''
          (\<lambda>d. createHRVData e d ((body req)(''userId'' \<mapsto> VStr mockUserId))) w)"
  "serve PostAppointments e p w req =
     respond ''Error creating appointment:'' ''Failed to create appointment'' json_row
       (validated insertAppointmentSchema ((body req)(''patientId'' \<mapsto> VStr mockUserId))
          (\<lambda>appointmentData. storage_write ''createAppointment''
                                (\<lambda>d. createAppointment e d appointmentData)) w)"
  "serve PostMedicalDocuments e p w req =
     respond ''Error creating medical document:'' ''Failed to create medical document'' json_row
       (validated insertMedicalDocumentSchema ((body req)(''userId'' \<mapsto> VStr mockUserId))
          (\<lambda>documentData. storage_write ''createMedicalDocument''
                             (\<lambda>d. createMedicalDocument e d documentData)) w)"
  "serve PostAiConversations e p w req =
     respond ''Error creating AI conversation:'' ''Failed to create AI conversation'' json_row
       (storage_write ''createAIConversation''
          (\<lambda>d. createAIConversation e d ((body req)(''userId'' \<mapsto> VStr mockUserId))) w)"
  "serve PostProfile e p w req =
     respond ''Error updating profile:'' ''Failed to update profile'' json_row
       (validated insertUserProfileSchema ((body req)(''userId'' \<mapsto> VStr mockUserId))
          (\<lambda>profileData. storage_write ''upsertUserProfile''
                            (\<lambda>d. upsertUserProfile e d profileData)) w)"
  by (simp_all add: serve_def handler_def requireAuth_def post_food_entries_def post_hrv_data_def
        post_appointments_def post_medical_documents_def post_ai_conversations_def post_profile_def)

lemma create_ignores_body_owner:
  "rt \<in> set create_routes \<Longrightarrow>
   serve rt e p w (req\<lparr>body := (body req)(owner_field rt := x)\<rparr>) = serve rt e p w req"
  by (auto simp: create_routes_def owner_field_def create_unfold)

lemma fst_returning_first [simp]: "fst (returning_first x) = fst x"
  by (simp add: returning_first_def)

lemma create_stores_owner:
  assumes "rt \<in> set create_routes"
  shows "rows (db (fst (serve rt e p w req))) t = rows (db w) t
         \<or> (\<exists>r. t = table_of rt
                \<and> rows (db (fst (serve rt e p w req))) t = rows (db w) t @ [r]
                \<and> r (owner_field rt) = Some (VStr mockUserId))"
proof -
  consider "rt = PostProfile" | "rt = PostFoodEntries" | "rt = PostHrvData"
    | "rt = PostAppointments" | "rt = PostMedicalDocuments" | "rt = PostAiConversations"
    using assms by (auto simp: create_routes_def)
  then show ?thesis
  proof cases
    case 1
    then show ?thesis using post_profile_always_500 [of e p w req] by simp
  next
    case 2
    show ?thesis
    proof (cases "zod_parse insertFoodEntrySchema ((body req)(''userId'' \<mapsto> VStr mockUserId))")
      case (Inl a)
      then show ?thesis by (simp add: 2 create_unfold db_validated)
    next
      case (Inr parsed)
      have "parsed ''userId'' = Some (VStr mockUserId)"
        using parsed_owner(1) [OF Inr] by simp
      then show ?thesis
        using insert_owner [OF owner_columns(1), of parsed "VStr mockUserId" e "db w" t] Inr
        by (simp add: 2 create_unfold db_validated createFoodEntry_def owner_field_def table_of_def canon_owner)
    qed
  next
    case 3
    show ?thesis
      using insert_owner [OF owner_columns(2), of "(body req)(''userId'' \<mapsto> VStr mockUserId)" "VStr mockUserId" e "db w" t]
      by (simp add: 3 create_unfold createHRVData_def owner_field_def table_of_def canon_owner)
  next
    case 4
    show ?thesis
    proof (cases "zod_parse insertAppointmentSchema ((body req)(''patientId'' \<mapsto> VStr mockUserId))")
      case (Inl a)
      then show ?thesis by (simp add: 4 create_unfold db_validated)
    next
      case (Inr parsed)
      have "parsed ''patientId'' = Some (VStr mockUserId)"
        using parsed_owner(2) [OF Inr] by simp
      then show ?thesis
        using insert_owner [OF owner_columns(3), of parsed "VStr mockUserId" e "db w" t] Inr
        by (simp add: 4 create_unfold db_validated createAppointment_def owner_field_def table_of_def canon_owner)
    qed
  next
    case 5
    show ?thesis
    proof (cases "zod_parse insertMedicalDocumentSchema ((body req)(''userId'' \<mapsto> VStr mockUserId))")
      case (Inl a)
      then show ?thesis by (simp add: 5 create_unfold db_validated)
    next
      case (Inr parsed)
      have "parsed ''userId'' = Some (VStr mockUserId)"
        using parsed_owner(3) [OF Inr] by simp
      then show ?thesis
        using insert_owner [OF owner_columns(4), of parsed "VStr mockUserId" e "db w" t] Inr
        by (simp add: 5 create_unfold db_validated createMedicalDocument_def owner_field_def table_of_def canon_owner)
    qed
  next
    case 6
    show ?thesis
      using insert_owner [OF owner_columns(5), of "(body req)(''userId'' \<mapsto> VStr mockUserId)" "VStr mockUserId" e "db w" t]
      by (simp add: 6 create_unfold createAIConversation_def owner_field_def table_of_def canon_owner)
  qed
qed


lemma rows_step_seq [simp]: "rows (step_seq t vals d) = rows d"
  by (simp add: step_seq_def)

lemma rows_append_row [simp]:
  "rows (append_row t r d) t' = (if t' = t then rows d t @ [r] else rows d t')"
  by (simp add: append_row_def)

lemma spoofed_parse:
  "zod_parse insertFoodEntrySchema ((body spoofedRequest)(''userId'' \<mapsto> VStr mockUserId))
     = Inr spoofedData"
  by (auto simp add: spoofedRequest_def spoofedData_def request0_def insertFoodEntrySchema_def foodEntries_def
      zod_parse_def createInsertSchema_def field_ok_def zod_accepts_def is_uuid_def is_hex_def col_defs mockUserId_def fun_eq_iff)

lemma spoofed_row_accepted:
  "violation seededDb FoodEntries (rows seededDb FoodEntries)
     (new_row env0 (seqs seededDb FoodEntries + 1) (columns FoodEntries) spoofedData) = None"
  by code_simp

lemma spoofed_row_cells:
  "map (new_row env0 (seqs seededDb FoodEntries + 1) (columns FoodEntries) spoofedData)
     [''id'', ''userId'', ''description'', ''timestamp'']
   = [Some (VNum 1), Some (VStr mockUserId), Some (VStr ''oatmeal''), Some (VDate 1718000000000)]"
  by code_simp

lemma no_food_yet: "rows seededDb FoodEntries = []"
  by (simp add: seededDb_def)

lemma spoofed_insert:
  "pg_insert env0 seededDb FoodEntries spoofedData
     = (append_row FoodEntries
          (new_row env0 (seqs seededDb FoodEntries + 1) (columns FoodEntries) spoofedData)
          (step_seq FoodEntries spoofedData seededDb),
        Inr [new_row env0 (seqs seededDb FoodEntries + 1) (columns FoodEntries) spoofedData])"
  by (simp only: pg_insert_def Let_def spoofed_row_accepted option.case)

lemma spoofed_post:
  "status (snd (serve PostFoodEntries env0 rateLimited world0 spoofedRequest)) = 200
   \<and> map (\<lambda>r. map r [''id'', ''userId'', ''description'', ''timestamp''])
         (rows (db (fst (serve PostFoodEntries env0 rateLimited world0 spoofedRequest))) FoodEntries)
       = [[Some (VNum 1), Some (VStr mockUserId), Some (VStr ''oatmeal''),
           Some (VDate 1718000000000)]]"
proof -
  have w: "db world0 = seededDb" by (simp add: world0_def)
  have s: "serve PostFoodEntries env0 rateLimited world0 spoofedRequest
             = respond ''Error creating food entry:'' ''Failed to create food entry'' json_row
                 (storage_write ''createFoodEntry''
                    (\<lambda>d. returning_first (pg_insert env0 d FoodEntries spoofedData)) world0)"
    by (simp add: create_unfold validated_def spoofed_parse createFoodEntry_def)
  show ?thesis
    unfolding s
    by (simp add: respond_def storage_write_def emit_def w returning_first_def spoofed_insert
          first_row_def no_food_yet spoofed_row_cells [simplified])
qed

text \<open>
  Claim C4. On each of the six POST create routes, the response and the new state of
  the world do not depend on the owner property of the request body (\<open>patientId\<close>
  for appointments, \<open>userId\<close> otherwise): setting it to any value, or removing it,
  changes nothing. A request leaves every table as it was or appends one row to the
  route's table, and the owner property of that row is the authenticated user id.
\<close>

theorem created_row_owner_is_authenticated_user:
  "rt \<in> set create_routes \<longrightarrow>
     serve rt e p w (req\<lparr>body := (body req)(owner_field rt := x)\<rparr>) = serve rt e p w req
     \<and> (rows (db (fst (serve rt e p w req))) t = rows (db w) t
         \<or> (\<exists>r. t = table_of rt
                \<and> rows (db (fst (serve rt e p w req))) t = rows (db w) t @ [r]
                \<and> r (owner_field rt) = Some (VStr mockUserId)))"
  using create_ignores_body_owner create_stores_owner by blast

theorem created_row_owner_is_authenticated_user_witness:
  "PostFoodEntries \<in> set create_routes
   \<and> body spoofedRequest ''userId'' = Some (VStr otherUserId)
   \<and> serve PostFoodEntries env0 rateLimited world0
        (spoofedRequest\<lparr>body := (body spoofedRequest)(''userId'' := None)\<rparr>)
       = serve PostFoodEntries env0 rateLimited world0 spoofedRequest
   \<and> status (snd (serve PostFoodEntries env0 rateLimited world0 spoofedRequest)) = 200
   \<and> map (\<lambda>r. map r [''id'', ''userId'', ''description'', ''timestamp''])
         (rows (db (fst (serve PostFoodEntries env0 rateLimited world0 spoofedRequest))) FoodEntries)
       = [[Some (VNum 1), Some (VStr mockUserId), Some (VStr ''oatmeal''),
           Some (VDate 1718000000000)]]"
proof -
  have m: "PostFoodEntries \<in> set create_routes"
    by (simp add: create_routes_def)
  have o: "owner_field PostFoodEntries = ''userId''"
    by (simp add: owner_field_def)
  have b: "body spoofedRequest ''userId'' = Some (VStr otherUserId)"
    by (simp add: spoofedRequest_def request0_def)
  show ?thesis
    using created_row_owner_is_authenticated_user
            [of PostFoodEntries env0 rateLimited world0 spoofedRequest None FoodEntries]
      spoofed_post
    by (simp add: m o b)
qed

subsection \<open>Upserting a profile\<close>

text \<open>
  \<open>upsertUser\<close>, whose conflict target \<open>users.email\<close> is declared unique, inserts on
  the first call and replaces in place on the second, refreshing \<open>updatedAt\<close> and
  keeping \<open>createdAt\<close>: one row remains, with the second call's fields.
\<close>

lemma upsertUser_replaces_on_conflict:
  "map (\<lambda>r. map r [''email'', ''firstName'', ''createdAt'', ''updatedAt''])
     (rows (fst (upsertUser env1 (fst (upsertUser env0 emptyDb sampleUser)) sampleUser2)) Users)
   = [[Some (VStr ''ann@example.org''), Some (VStr ''Anna''), Some (VDate 1718000000000),
       Some (VDate 1718000060000)]]"
  by code_simp


lemma profile_parse:
  "zod_parse insertUserProfileSchema ((body profileRequest)(''userId'' \<mapsto> VStr mockUserId)) = Inr sampleProfile"
  "zod_parse insertUserProfileSchema ((body profileRequest2)(''userId'' \<mapsto> VStr mockUserId)) = Inr sampleProfile2"
  by (auto simp add: profileRequest_def profileRequest2_def sampleProfile_def sampleProfile2_def request0_def insertUserProfileSchema_def userProfiles_def
      zod_parse_def createInsertSchema_def field_ok_def zod_accepts_def is_uuid_def is_hex_def col_defs mockUserId_def fun_eq_iff)

text \<open>
  Claim C1 does not hold of the code. With the user's row present and no profile
  stored, a valid payload posted to \<open>/api/profile\<close> passes validation, the upsert is
  rejected by the database (no unique constraint covers its conflict target), the
  answer is 500, and the following \<open>GET /api/profile\<close> answers 200 with no profile.
\<close>

theorem profile_post_then_get_returns_nothing:
  "zod_parse insertUserProfileSchema ((body profileRequest)(''userId'' \<mapsto> VStr mockUserId)) = Inr sampleProfile
   \<and> snd (upsertUserProfile env0 (db world0) sampleProfile) = Inl (PgError NoUniqueConstraintForOnConflict)
   \<and> snd (serve PostProfile env0 rateLimited world0 profileRequest) = \<lparr>status = 500, payload = Message ''Failed to update profile''\<rparr>
   \<and> snd (serve GetProfile env1 rateLimited (fst (serve PostProfile env0 rateLimited world0 profileRequest)) request0)
       = \<lparr>status = 200, payload = Absent\<rparr>"
  by (simp add: profile_parse create_unfold respond_def validated_def storage_write_def storage_read_def emit_def reply_def
     upsertUserProfile_rejected serve_def[of GetProfile] handler_def requireAuth_def get_profile_def getUserProfile_def bind_uuid_mock
     pg_select_def world0_def seededDb_def first_row_def json_row_def)

text \<open>
  Claim C2 does not hold of the code. Two calls of \<open>upsertUserProfile\<close> for the same
  user id are both rejected and leave no profile row at all; likewise two posts to
  \<open>/api/profile\<close> both answer 500 and store nothing.
\<close>

theorem two_profile_upserts_store_nothing:
  "snd (upsertUserProfile env0 seededDb sampleProfile) = Inl (PgError NoUniqueConstraintForOnConflict)
   \<and> snd (upsertUserProfile env1 (fst (upsertUserProfile env0 seededDb sampleProfile)) sampleProfile2)
       = Inl (PgError NoUniqueConstraintForOnConflict)
   \<and> rows (fst (upsertUserProfile env1 (fst (upsertUserProfile env0 seededDb sampleProfile)) sampleProfile2)) UserProfiles = []
   \<and> status (snd (serve PostProfile env0 rateLimited world0 profileRequest)) = 500
   \<and> status (snd (serve PostProfile env1 rateLimited (fst (serve PostProfile env0 rateLimited world0 profileRequest)) profileRequest2)) = 500
   \<and> rows (db (fst (serve PostProfile env1 rateLimited (fst (serve PostProfile env0 rateLimited world0 profileRequest)) profileRequest2))) UserProfiles = []"
  by (simp add: upsertUserProfile_rejected post_profile_always_500 reply_def)
     (simp add: seededDb_def world0_def)


end
